theory Spec2Isabelle
  imports Main "HOL-Library.Word"
begin

unbundle bit_operations_syntax

section \<open>Values shared by the connection code\<close>

type_synonym byte = "8 word"
type_synonym uint32 = "32 word"
type_synonym uint64 = "64 word"

text \<open>
  \<^verbatim>\<open>cipher.PubKey\<close> is a fixed array of 33 bytes and \<^verbatim>\<open>cipher.SHA256\<close> one of 32 bytes;
  the connection code only compares them, so they are byte lists here. The zero value
  \<^verbatim>\<open>cipher.PubKey{}\<close> is the array of 33 zero bytes.
\<close>

type_synonym PubKey = "byte list"
type_synonym SHA256 = "byte list"
type_synonym Sig = "byte list"

definition blank_PubKey :: PubKey where
  "blank_PubKey = replicate 33 0"

text \<open>
  Go's \<^verbatim>\<open>error\<close> values met in \<^verbatim>\<open>conn.go\<close>: the package's sentinels and the errors
  built with \<^verbatim>\<open>errors.New\<close> and \<^verbatim>\<open>fmt.Errorf\<close>, which carry their text. A \<^verbatim>\<open>nil\<close>
  error is \<open>None\<close> of \<open>error option\<close>.
\<close>

datatype error = ErrTimeout | ErrClosed | ErrNotFound | ErrNotPublic | ErrText string

section \<open>Byte order: \<^verbatim>\<open>binary.LittleEndian\<close>\<close>

text \<open>
  \<^verbatim>\<open>PutUint32(b, v)\<close> writes the four bytes of \<^verbatim>\<open>v\<close>, lowest first, into the first four
  cells of \<^verbatim>\<open>b\<close> and leaves the rest; \<^verbatim>\<open>Uint32(b)\<close> reads them back. Both panic on a
  slice shorter than four bytes (the result \<open>None\<close>).
\<close>

definition PutUint32 :: "byte list \<Rightarrow> uint32 \<Rightarrow> byte list option" where
  "PutUint32 b v =
     (if length b < 4 then None
      else Some (b[0 := ucast v,
                   1 := ucast (drop_bit 8 v),
                   2 := ucast (drop_bit 16 v),
                   3 := ucast (drop_bit 24 v)]))"

definition Uint32 :: "byte list \<Rightarrow> uint32 option" where
  "Uint32 b =
     (if length b < 4 then None
      else Some (ucast (b ! 0) OR push_bit 8 (ucast (b ! 1))
                 OR push_bit 16 (ucast (b ! 2)) OR push_bit 24 (ucast (b ! 3))))"

section \<open>The frame codec of a connection\<close>

text \<open>
  The \<^verbatim>\<open>msg\<close> package (the variants of \<^verbatim>\<open>msg.Msg\<close>, \<^verbatim>\<open>Encode\<close> and \<^verbatim>\<open>msg.Decode\<close>) is
  another package of the repository. The codec of the connection is parametric in the
  message type \<open>'m\<close>, in \<open>enc\<close> (the method \<^verbatim>\<open>m.Encode()\<close>) and in \<open>dec\<close>
  (\<^verbatim>\<open>msg.Decode\<close>, which returns a message or an error).
\<close>

text \<open>
  \<^verbatim>\<open>encodeMsg\<close>: \<^verbatim>\<open>raw = make([]byte, 8, 8+len(em))\<close> is eight zero bytes. The first
  \<^verbatim>\<open>PutUint32\<close> writes \<^verbatim>\<open>seq\<close> into \<^verbatim>\<open>raw\<close>. The second one is given the slice
  \<^verbatim>\<open>raw[:4]\<close>, which is the first four cells of the same array: what it writes shows
  in \<^verbatim>\<open>raw\<close>, whose cells from 4 on stay as they were. Then \<^verbatim>\<open>em\<close> is appended.
\<close>

definition encodeMsg :: "('m \<Rightarrow> byte list) \<Rightarrow> uint32 \<Rightarrow> uint32 \<Rightarrow> 'm \<Rightarrow> byte list option" where
  "encodeMsg enc seq rseq m =
     (let em = enc m;
          raw = replicate 8 (0 :: byte)
      in case PutUint32 raw seq of
           None \<Rightarrow> None
         | Some raw1 \<Rightarrow>
             (case PutUint32 (take 4 raw1) rseq of
                None \<Rightarrow> None
              | Some head \<Rightarrow> Some ((head @ drop 4 raw1) @ em)))"

text \<open>
  \<^verbatim>\<open>decodeRaw\<close>: fewer than nine bytes is an error; otherwise the sequence number is
  read from the first four bytes, the response sequence number from the next four, and
  the rest goes to \<^verbatim>\<open>msg.Decode\<close>.
\<close>

definition decodeRaw ::
  "(byte list \<Rightarrow> error + 'm) \<Rightarrow> byte list \<Rightarrow> error + (uint32 \<times> uint32 \<times> 'm)" where
  "decodeRaw dec raw =
     (if length raw < 9 then Inl (ErrText ''invlaid messege received: too short'')
      else case Uint32 raw of
             None \<Rightarrow> Inl (ErrText ''index out of range'')
           | Some seq \<Rightarrow>
               (let raw1 = drop 4 raw in
                case Uint32 raw1 of
                  None \<Rightarrow> Inl (ErrText ''index out of range'')
                | Some rseq \<Rightarrow>
                    (let raw2 = drop 4 raw1 in
                     case dec raw2 of
                       Inl err \<Rightarrow> Inl err
                     | Inr m \<Rightarrow> Inr (seq, rseq, m))))"

text \<open>The four bytes of a 32-bit value, lowest first.\<close>

definition le_bytes :: "uint32 \<Rightarrow> byte list" where
  "le_bytes v = [ucast v, ucast (drop_bit 8 v), ucast (drop_bit 16 v), ucast (drop_bit 24 v)]"

section \<open>Messages, Roots and the owning node\<close>

text \<open>
  Modelled from the spec: the variants of \<^verbatim>\<open>msg.Msg\<close>, which the \<^verbatim>\<open>msg\<close> package
  declares outside \<^verbatim>\<open>conn.go\<close>; the variants and their fields are those of the table of
  external interfaces and of the comments of \<^verbatim>\<open>handle\<close>
  (\<^verbatim>\<open>Root (feed, nonce, seq, sig, val)\<close>, \<^verbatim>\<open>RqO (key, prefetch)\<close>).
\<close>

datatype Msg =
    MsgSub PubKey
  | MsgUnsub PubKey
  | MsgRqList
  | MsgList "PubKey list"
  | MsgOk
  | MsgErr string
  | MsgRoot PubKey uint64 uint64 Sig "byte list"
  | MsgRootDone PubKey uint64 uint64
  | MsgRootErr PubKey uint64 uint64 string
  | MsgRqObject SHA256 bool
  | MsgObject "byte list" "byte list list"
  | MsgRqPreview PubKey

text \<open>\<^verbatim>\<open>registry.Root\<close>, with the fields \<^verbatim>\<open>handleRoot\<close> reads.\<close>

record Root =
  Pub :: PubKey
  Nonce :: uint64
  Seq :: uint64
  IsFull :: bool

text \<open>
  \<^verbatim>\<open>fillSent\<close> holds two pointers (a filler and a sender, both declared elsewhere);
  a \<^verbatim>\<open>connFeed\<close> is a mutex and the map of heads. \<^verbatim>\<open>new(connFeed)\<close> is unlocked with
  a nil map.
\<close>

type_synonym fillSent = "nat \<times> nat"

record connFeed =
  cf_mx :: bool
  heads :: "uint64 \<rightharpoonup> fillSent"

definition new_connFeed :: connFeed where
  "new_connFeed = \<lparr> cf_mx = False, heads = Map.empty \<rparr>"

text \<open>
  What the connection asks of its node \<^verbatim>\<open>c.n\<close> and leaves a trace: lines given to the
  logger (\<^verbatim>\<open>Print\<close>, \<^verbatim>\<open>Printf\<close>, \<^verbatim>\<open>Fatal\<close>) and the registrations
  \<^verbatim>\<open>addPendingConn\<close>, \<^verbatim>\<open>Share\<close> and \<^verbatim>\<open>addConnFeed\<close>.
\<close>

datatype node_event =
    Print string
  | Fatal string
  | AddPendingConn
  | Shared PubKey
  | AddConnFeed PubKey

text \<open>
  The state of a \<^verbatim>\<open>Conn\<close>. The fields \<open>incoming\<close>, \<open>tcp\<close>, \<open>feeds\<close>,
  \<open>fillingRoots\<close>, \<open>seq\<close> and \<open>reqs\<close> are those of the struct. A request channel is
  made fresh for each request, so \<open>reqs\<close> maps a sequence number to the number of the
  request that owns the channel. The rest stands for what the struct points to:
  \<^item> \<open>mx\<close>: whether the mutex \<^verbatim>\<open>c.mx\<close> is held;
  \<^item> \<open>sendq\<close>: the frames put on the channel \<^verbatim>\<open>c.sendq\<close>, oldest first;
  \<^item> \<open>closeq_closed\<close>: whether the channel \<^verbatim>\<open>c.closeq\<close> has been closed;
  \<^item> \<open>conn_closed\<close>: whether \<^verbatim>\<open>c.Connection.Close()\<close> has run;
  \<^item> \<open>addr\<close>: the remote address of the embedded \<^verbatim>\<open>factory.Connection\<close>;
  \<^item> \<open>nlog\<close>: the trace of the calls on \<^verbatim>\<open>c.n\<close> listed above.
\<close>

record Conn =
  incoming :: bool
  tcp :: bool
  feeds :: "PubKey \<rightharpoonup> connFeed"
  fillingRoots :: int
  seq :: uint32
  reqs :: "uint32 \<rightharpoonup> uint32"
  mx :: bool
  sendq :: "byte list list"
  closeq_closed :: bool
  conn_closed :: bool
  addr :: string
  nlog :: "node_event list"

text \<open>
  The node behind \<^verbatim>\<open>c.n\<close> and its container \<^verbatim>\<open>c.n.c\<close> are declared outside
  \<^verbatim>\<open>conn.go\<close>; the connection code is parametric in them:
  \<^item> \<open>Encode\<close>, \<open>Decode\<close>: the codec of the \<^verbatim>\<open>msg\<close> package;
  \<^item> \<open>Error_text\<close>: the text \<^verbatim>\<open>err.Error()\<close> of the sentinel errors;
  \<^item> \<open>ResponseTimeout\<close>, \<open>Public\<close>: the fields of \<^verbatim>\<open>c.n.config\<close>;
  \<^item> \<open>Share\<close>, \<open>onSubscribeRemote\<close>: the error either call returns, if any;
  \<^item> \<open>fc\<close>: whether the map \<^verbatim>\<open>c.n.fc\<close> has the feed; \<open>node_Feeds\<close>: \<^verbatim>\<open>c.n.Feeds()\<close>;
  \<^item> \<open>ReceivedRoot\<close>: the Root the container makes of a signature and a value, or its
    error; \<open>LastRoot\<close>, \<open>Get\<close>: the results of the container, a value and an error as
    Go returns them (\<^verbatim>\<open>handleRoot\<close> tests both); \<open>Short\<close>: the text \<^verbatim>\<open>r.Short()\<close>;
  \<^item> \<open>addToFiller\<close>: the method \<^verbatim>\<open>c.addToFiller(cf, r)\<close>, given the key under which
    \<^verbatim>\<open>cf\<close> is stored; \<open>unholdSent\<close>: the method \<^verbatim>\<open>cf.unholdSent(c.n)\<close>.
  What these calls change inside the node or the container is not part of the model.
\<close>

record Node =
  Encode :: "Msg \<Rightarrow> byte list"
  Decode :: "byte list \<Rightarrow> error + Msg"
  Error_text :: "error \<Rightarrow> string"
  ResponseTimeout :: int
  Public :: bool
  Share :: "PubKey \<Rightarrow> error option"
  onSubscribeRemote :: "PubKey \<Rightarrow> error option"
  fc :: "PubKey \<Rightarrow> bool"
  node_Feeds :: "PubKey list"
  ReceivedRoot :: "Sig \<Rightarrow> byte list \<Rightarrow> error + Root"
  LastRoot :: "PubKey \<Rightarrow> uint64 \<Rightarrow> Root option \<times> error option"
  Get :: "SHA256 \<Rightarrow> byte list \<times> error option"
  Short :: "Root \<Rightarrow> string"
  addToFiller :: "Conn \<Rightarrow> PubKey \<Rightarrow> Root \<Rightarrow> Conn"
  unholdSent :: "connFeed \<Rightarrow> connFeed"

definition Error :: "Node \<Rightarrow> error \<Rightarrow> string" where
  "Error n e = (case e of ErrText s \<Rightarrow> s | _ \<Rightarrow> Error_text n e)"

text \<open>
  A call either returns, with a value and the state it leaves, or it blocks for good in
  the state it has reached (on a mutex that is held, or on a channel with no partner),
  or it panics there.
\<close>

datatype 'a outcome = Blocked Conn | Panicked Conn | Returned 'a Conn

text \<open>
  \<^verbatim>\<open>sync.Mutex\<close> is not reentrant: \<^verbatim>\<open>Lock\<close> on a held mutex waits until another
  goroutine releases it.
\<close>

definition Lock :: "Conn \<Rightarrow> Conn option" where
  "Lock c = (if mx c then None else Some (c\<lparr>mx := True\<rparr>))"

definition Unlock :: "Conn \<Rightarrow> Conn" where
  "Unlock c = c\<lparr>mx := False\<rparr>"

section \<open>Creating and closing a connection\<close>

definition newConnection :: "string \<Rightarrow> bool \<Rightarrow> bool \<Rightarrow> Conn" where
  "newConnection remote isIncoming isTCP =
     \<lparr> incoming = isIncoming, tcp = isTCP, feeds = Map.empty, fillingRoots = 0, seq = 0,
       reqs = Map.empty, mx = False, sendq = [], closeq_closed = False,
       conn_closed = False, addr = remote, nlog = [AddPendingConn] \<rparr>"

definition connString :: "bool \<Rightarrow> bool \<Rightarrow> string \<Rightarrow> string" where
  "connString isIncoming isTCP a =
     ((if isIncoming then ''-> '' else ''<- '') @ (if isTCP then ''tcp://'' else ''udp://'')) @ a"

definition String :: "Conn \<Rightarrow> string" where
  "String c = connString (incoming c) (tcp c) (addr c)"

text \<open>\<^verbatim>\<open>Close\<close> closes the embedded connection (once).\<close>

definition Close :: "Conn \<Rightarrow> Conn" where
  "Close c = c\<lparr>conn_closed := True\<rparr>"

text \<open>\<^verbatim>\<open>closeWithError\<close> has an empty body. \<^verbatim>\<open>fatality\<close> prints the error and calls it.\<close>

definition closeWithError :: "Conn \<Rightarrow> string \<Rightarrow> Conn" where
  "closeWithError c err = c"

definition fatality :: "Conn \<Rightarrow> string \<Rightarrow> Conn" where
  "fatality c args =
     (let err = args in closeWithError (c\<lparr>nlog := nlog c @ [Print (''[ERR] '' @ err)]\<rparr>) err)"

section \<open>Sequence numbers and sending\<close>

text \<open>\<^verbatim>\<open>nextSeq\<close> adds one to the 32-bit counter and returns the new value.\<close>

definition nextSeq :: "Conn \<Rightarrow> uint32 \<times> Conn" where
  "nextSeq c = (seq c + 1, c\<lparr>seq := seq c + 1\<rparr>)"

text \<open>The values of \<open>k\<close> calls of \<^verbatim>\<open>nextSeq\<close> one after the other.\<close>

fun nextSeqs :: "nat \<Rightarrow> Conn \<Rightarrow> uint32 list" where
  "nextSeqs 0 c = []"
| "nextSeqs (Suc k) c = (case nextSeq c of (s, c') \<Rightarrow> s # nextSeqs k c')"

text \<open>
  \<^verbatim>\<open>sendRaw\<close> selects between putting the frame on \<^verbatim>\<open>c.sendq\<close> and the close signal.
  The queue belongs to the transport, which drains it; it is taken to have room. Once
  \<^verbatim>\<open>c.closeq\<close> is closed the frame is taken to be dropped.
\<close>

definition sendRaw :: "Conn \<Rightarrow> byte list \<Rightarrow> Conn" where
  "sendRaw c raw = (if closeq_closed c then c else c\<lparr>sendq := sendq c @ [raw]\<rparr>)"

text \<open>
  \<^verbatim>\<open>sendMsg\<close> sends the encoded frame. \<^verbatim>\<open>encodeMsg\<close> never panics (lemma
  \<open>encodeMsg_eq\<close> below), so the branch \<open>None\<close> is never taken.
\<close>

definition sendMsg :: "Node \<Rightarrow> Conn \<Rightarrow> uint32 \<Rightarrow> uint32 \<Rightarrow> Msg \<Rightarrow> Conn" where
  "sendMsg n c sq rseq m =
     (case encodeMsg (Encode n) sq rseq m of None \<Rightarrow> c | Some raw \<Rightarrow> sendRaw c raw)"

definition sendErr :: "Node \<Rightarrow> Conn \<Rightarrow> uint32 \<Rightarrow> error \<Rightarrow> Conn" where
  "sendErr n c rseq err = (case nextSeq c of (s, c1) \<Rightarrow> sendMsg n c1 s rseq (MsgErr (Error n err)))"

definition sendOk :: "Node \<Rightarrow> Conn \<Rightarrow> uint32 \<Rightarrow> Conn" where
  "sendOk n c rseq = (case nextSeq c of (s, c1) \<Rightarrow> sendMsg n c1 s rseq MsgOk)"

section \<open>Pending requests\<close>

text \<open>Each of the three takes \<^verbatim>\<open>c.mx\<close> for the time of the map operation.\<close>

definition isResponse :: "Conn \<Rightarrow> uint32 \<Rightarrow> uint32 option outcome" where
  "isResponse c rseq =
     (case Lock c of None \<Rightarrow> Blocked c | Some c1 \<Rightarrow> Returned (reqs c1 rseq) (Unlock c1))"

definition addRequest :: "Conn \<Rightarrow> uint32 \<Rightarrow> uint32 \<Rightarrow> unit outcome" where
  "addRequest c sq rq =
     (case Lock c of
        None \<Rightarrow> Blocked c
      | Some c1 \<Rightarrow> Returned () (Unlock (c1\<lparr>reqs := (reqs c1)(sq \<mapsto> rq)\<rparr>)))"

definition delRequest :: "Conn \<Rightarrow> uint32 \<Rightarrow> unit outcome" where
  "delRequest c sq =
     (case Lock c of
        None \<Rightarrow> Blocked c
      | Some c1 \<Rightarrow> Returned () (Unlock (c1\<lparr>reqs := (reqs c1)(sq := None)\<rparr>)))"

text \<open>
  A request channel is made with \<^verbatim>\<open>make(chan msg.Msg)\<close>: it has no buffer, so an
  operation on it completes only together with the opposite operation of another
  goroutine, which passes the value sent. The values are of the interface type
  \<^verbatim>\<open>msg.Msg\<close>, \<open>None\<close> being \<^verbatim>\<open>nil\<close>.
\<close>

datatype chan_op = Send "Msg option" | Recv

fun rendezvous :: "chan_op \<Rightarrow> chan_op \<Rightarrow> Msg option option" where
  "rendezvous (Send v) Recv = Some v"
| "rendezvous Recv (Send v) = Some v"
| "rendezvous (Send v) (Send w) = None"
| "rendezvous Recv Recv = None"

text \<open>
  The two places that use a request channel. In \<^verbatim>\<open>sendRequest\<close> the first case of the
  \<^verbatim>\<open>select\<close> is \<^verbatim>\<open>rq <- reply\<close>, with \<^verbatim>\<open>reply\<close> the result variable, still \<^verbatim>\<open>nil\<close>. In the
  receive loop a frame that answers a pending request is passed on with \<^verbatim>\<open>rq <- m\<close>.
\<close>

definition sendRequest_rq_op :: chan_op where
  "sendRequest_rq_op = Send None"

definition receiving_rq_op :: "Msg \<Rightarrow> chan_op" where
  "receiving_rq_op m = Send (Some m)"

text \<open>
  The cases of the \<^verbatim>\<open>select\<close> of \<^verbatim>\<open>sendRequest\<close> that can proceed, in the order of the
  source, each with the results it returns. \<open>resp\<close> is the message of the frame that the
  receive loop is passing to this request, if there is one; \<open>fired\<close> says whether the
  timer has expired. The timer exists only for a positive \<^verbatim>\<open>ResponseTimeout\<close>; without
  it \<^verbatim>\<open>tc\<close> is a nil channel, which is never ready.
\<close>

definition sendRequest_select ::
  "Node \<Rightarrow> Conn \<Rightarrow> Msg option \<Rightarrow> bool \<Rightarrow> (Msg option \<times> error option) list" where
  "sendRequest_select n c resp fired =
     (case resp of
        None \<Rightarrow> []
      | Some m \<Rightarrow>
          (case rendezvous sendRequest_rq_op (receiving_rq_op m) of
             None \<Rightarrow> []
           | Some v \<Rightarrow> [(None, None)]))
     @ (if 0 < ResponseTimeout n \<and> fired then [(None, Some ErrTimeout)] else [])
     @ (if closeq_closed c then [(None, Some ErrClosed)] else [])"

text \<open>
  \<^verbatim>\<open>sendRequest\<close>: take a sequence number, register the channel, send the frame with
  response sequence 0, wait in the \<^verbatim>\<open>select\<close>, and on the way out run the deferred
  \<^verbatim>\<open>delRequest\<close>. When several cases can proceed Go takes any of them: \<open>pick\<close> chooses.
  With no case ready the call stays blocked.
\<close>

definition sendRequest ::
  "Node \<Rightarrow> Conn \<Rightarrow> Msg \<Rightarrow> Msg option \<Rightarrow> bool \<Rightarrow> nat \<Rightarrow> (Msg option \<times> error option) outcome" where
  "sendRequest n c m resp fired pick =
     (case nextSeq c of
        (sq, c1) \<Rightarrow>
          (case addRequest c1 sq sq of
             Blocked b \<Rightarrow> Blocked b
           | Panicked b \<Rightarrow> Panicked b
           | Returned u c2 \<Rightarrow>
               (let c3 = sendMsg n c2 sq 0 m;
                    ready = sendRequest_select n c3 resp fired
                in if ready = [] then Blocked c3
                   else (case delRequest c3 sq of
                           Blocked b \<Rightarrow> Blocked b
                         | Panicked b \<Rightarrow> Panicked b
                         | Returned u c4 \<Rightarrow> Returned (ready ! (pick mod length ready)) c4))))"

section \<open>Subscribing and unsubscribing\<close>

text \<open>
  \<^verbatim>\<open>Subscribe\<close> holds \<^verbatim>\<open>c.mx\<close> from its first line to its return. The reply is examined
  by type: \<^verbatim>\<open>*msg.Ok\<close> is success, \<^verbatim>\<open>*msg.Err\<close> gives its text, anything else (also
  \<^verbatim>\<open>nil\<close>) is an invalid response type. The word \<^verbatim>\<open>reutrn\<close> of the source is read as
  \<^verbatim>\<open>return\<close>.
\<close>

definition Subscribe ::
  "Node \<Rightarrow> Conn \<Rightarrow> PubKey \<Rightarrow> Msg option \<Rightarrow> bool \<Rightarrow> nat \<Rightarrow> error option outcome" where
  "Subscribe n c feed resp fired pick =
     (case Lock c of
        None \<Rightarrow> Blocked c
      | Some c1 \<Rightarrow>
          (if feeds c1 feed \<noteq> None then Returned None (Unlock c1)
           else case Share n feed of
                  Some err \<Rightarrow> Returned (Some err) (Unlock c1)
                | None \<Rightarrow>
                    (case sendRequest n (c1\<lparr>nlog := nlog c1 @ [Shared feed]\<rparr>)
                            (MsgSub feed) resp fired pick of
                       Blocked b \<Rightarrow> Blocked b
                     | Panicked b \<Rightarrow> Panicked b
                     | Returned (reply, Some err) c2 \<Rightarrow> Returned (Some err) (Unlock c2)
                     | Returned (reply, None) c2 \<Rightarrow>
                         (let err = (case reply of
                                       Some MsgOk \<Rightarrow> None
                                     | Some (MsgErr x) \<Rightarrow> Some (ErrText x)
                                     | _ \<Rightarrow> Some (ErrText ''invalid response type''))
                          in if err \<noteq> None then Returned err (Unlock c2)
                             else Returned None
                                    (Unlock (c2\<lparr>feeds := (feeds c2)(feed \<mapsto> new_connFeed)\<rparr>))))))"

text \<open>
  Go's \<^verbatim>\<open>delete(m, k)\<close> removes the entry of \<^verbatim>\<open>m\<close> whose key is \<^verbatim>\<open>k\<close>, if there is one.
  The map \<^verbatim>\<open>c.feeds\<close> is keyed by public keys. \<^verbatim>\<open>Unsubscribe\<close> calls
  \<^verbatim>\<open>delete(c.feeds, cf)\<close>, where \<^verbatim>\<open>cf\<close> is the \<^verbatim>\<open>*connFeed\<close> it has just looked up: a
  value that is no public key and so is the key of no entry. (A Go compiler rejects the
  call for the type of its argument; the reading here is the one of the statement as it
  is written.)
\<close>

datatype feeds_key = KeyPubKey PubKey | KeyConnFeed connFeed

definition delete_feeds :: "(PubKey \<rightharpoonup> connFeed) \<Rightarrow> feeds_key \<Rightarrow> (PubKey \<rightharpoonup> connFeed)" where
  "delete_feeds m k = (case k of KeyPubKey pk \<Rightarrow> m(pk := None) | KeyConnFeed cf \<Rightarrow> m)"

text \<open>
  \<^verbatim>\<open>Unsubscribe\<close>: under \<^verbatim>\<open>c.mx\<close>, look the feed up and return if it is not there;
  otherwise lock the \<^verbatim>\<open>connFeed\<close>, call \<^verbatim>\<open>unholdSent\<close>, call \<^verbatim>\<open>delete\<close>, send the
  \<^verbatim>\<open>Unsub\<close> message with a fresh sequence number and response sequence 0, and release
  both locks (the deferred calls). \<^verbatim>\<open>cf\<close> points to the object that the map holds, so
  what is done to it shows in the entry as long as the entry is there.
\<close>

definition Unsubscribe :: "Node \<Rightarrow> Conn \<Rightarrow> PubKey \<Rightarrow> unit outcome" where
  "Unsubscribe n c feed =
     (case Lock c of
        None \<Rightarrow> Blocked c
      | Some c1 \<Rightarrow>
          (case feeds c1 feed of
             None \<Rightarrow> Returned () (Unlock c1)
           | Some cf \<Rightarrow>
               (if cf_mx cf then Blocked c1
                else (let cf1 = unholdSent n (cf\<lparr>cf_mx := True\<rparr>);
                          c2 = c1\<lparr>feeds := delete_feeds ((feeds c1)(feed \<mapsto> cf1)) (KeyConnFeed cf1)\<rparr>
                      in case nextSeq c2 of
                           (s, c3) \<Rightarrow>
                             (let c4 = sendMsg n c3 s 0 (MsgUnsub feed);
                                  c5 = c4\<lparr>feeds := (feeds c4)
                                         (feed := map_option (\<lambda>x. x\<lparr>cf_mx := False\<rparr>) (feeds c4 feed))\<rparr>
                              in Returned () (Unlock c5))))))"

section \<open>Handlers of inbound messages\<close>

text \<open>
  \<^verbatim>\<open>handleSub\<close>: a blank key is answered with an error before anything else; then,
  under \<^verbatim>\<open>c.mx\<close>, a feed that is already there is answered \<^verbatim>\<open>Ok\<close>; the callback may
  reject; the node must share the feed; only then the feed is recorded and \<^verbatim>\<open>Ok\<close> is
  sent. The handler returns no error in any case. The identifier \<^verbatim>\<open>feed\<close> given to the
  callback is read as \<^verbatim>\<open>sub.Feed\<close>. The mutex of the node is taken to be free.
\<close>

definition handleSub :: "Node \<Rightarrow> Conn \<Rightarrow> uint32 \<Rightarrow> PubKey \<Rightarrow> error option outcome" where
  "handleSub n c sq feed =
     (if feed = blank_PubKey
      then Returned None (sendErr n c sq (ErrText ''blank public key''))
      else case Lock c of
             None \<Rightarrow> Blocked c
           | Some c1 \<Rightarrow>
               (if feeds c1 feed \<noteq> None then Returned None (Unlock (sendOk n c1 sq))
                else case onSubscribeRemote n feed of
                       Some reject \<Rightarrow> Returned None (Unlock (sendErr n c1 sq reject))
                     | None \<Rightarrow>
                         (if \<not> fc n feed
                          then Returned None
                                 (Unlock (sendErr n c1 sq (ErrText ''not share the feed'')))
                          else (let c2 = c1\<lparr>nlog := nlog c1 @ [AddConnFeed feed]\<rparr>;
                                    c3 = c2\<lparr>feeds := (feeds c2)(feed \<mapsto> new_connFeed)\<rparr>
                                in Returned None (Unlock (sendOk n c3 sq))))))"

text \<open>\<^verbatim>\<open>handleUnsub\<close> looks the feed up and does nothing with it.\<close>

definition handleUnsub :: "Node \<Rightarrow> Conn \<Rightarrow> uint32 \<Rightarrow> PubKey \<Rightarrow> error option outcome" where
  "handleUnsub n c sq feed =
     (if feed = blank_PubKey then Returned None c
      else case Lock c of
             None \<Rightarrow> Blocked c
           | Some c1 \<Rightarrow>
               (case feeds c1 feed of
                  None \<Rightarrow> Returned None (Unlock c1)
                | Some cf \<Rightarrow> Returned None (Unlock c1)))"

definition handleRqList :: "Node \<Rightarrow> Conn \<Rightarrow> uint32 \<Rightarrow> error option outcome" where
  "handleRqList n c sq =
     (if \<not> Public n then Returned None (sendErr n c sq ErrNotPublic)
      else case nextSeq c of
             (s, c1) \<Rightarrow> Returned None (sendMsg n c1 s sq (MsgList (node_Feeds n))))"

text \<open>
  \<^verbatim>\<open>handleRoot\<close>, under \<^verbatim>\<open>c.mx\<close>: return if the feed is not there; return (with a line
  in the log) if the container refuses the Root; return if the Root is full; ask for
  the last Root of the head and return (with a line in the log) on an error other than
  \<^verbatim>\<open>data.ErrNotFound\<close>; return if there is a last Root and the sequence number of the
  received one is not greater; otherwise call \<^verbatim>\<open>addToFiller\<close>.
\<close>

definition handleRoot :: "Node \<Rightarrow> Conn \<Rightarrow> Msg \<Rightarrow> error option outcome" where
  "handleRoot n c root =
     (case root of
        MsgRoot feed nonce rseq sig val \<Rightarrow>
          (case Lock c of
             None \<Rightarrow> Blocked c
           | Some c1 \<Rightarrow>
               (case feeds c1 feed of
                  None \<Rightarrow> Returned None (Unlock c1)
                | Some cf \<Rightarrow>
                    (case ReceivedRoot n sig val of
                       Inl err \<Rightarrow>
                         Returned None
                           (Unlock (c1\<lparr>nlog := nlog c1 @
                              [Print (''[ERR] ['' @ String c1 @ ''] received Root error: ''
                                      @ Error n err)]\<rparr>))
                     | Inr r \<Rightarrow>
                         (if IsFull r then Returned None (Unlock c1)
                          else case LastRoot n (Pub r) (Nonce r) of
                                 (lastr, lerr) \<Rightarrow>
                                   (if lerr \<noteq> None \<and> lerr \<noteq> Some ErrNotFound
                                    then Returned None
                                           (Unlock (c1\<lparr>nlog := nlog c1 @
                                              [Print (''[ERR] ['' @ String c1 @ ''] '' @ Short n r
                                                      @ '', can't get last root'')]\<rparr>))
                                    else if (case lastr of
                                               None \<Rightarrow> False
                                             | Some l \<Rightarrow> Seq r \<le> Seq l)
                                    then Returned None (Unlock c1)
                                    else Returned None (Unlock (addToFiller n c1 feed r)))))))
      | _ \<Rightarrow> Returned None c)"

text \<open>These four have empty bodies.\<close>

definition handleRootDone :: "Node \<Rightarrow> Conn \<Rightarrow> Msg \<Rightarrow> error option outcome" where
  "handleRootDone n c m = Returned None c"

definition handleRootErr :: "Node \<Rightarrow> Conn \<Rightarrow> Msg \<Rightarrow> error option outcome" where
  "handleRootErr n c m = Returned None c"

definition handleObject :: "Node \<Rightarrow> Conn \<Rightarrow> Msg \<Rightarrow> error option outcome" where
  "handleObject n c m = Returned None c"

definition handleRqPreview :: "Node \<Rightarrow> Conn \<Rightarrow> uint32 \<Rightarrow> Msg \<Rightarrow> error option outcome" where
  "handleRqPreview n c sq m = Returned None c"

text \<open>
  \<^verbatim>\<open>handleRqObject\<close> asks the container for the object. On an error other than
  \<^verbatim>\<open>data.ErrNotFound\<close> it calls \<^verbatim>\<open>c.n.Fatal\<close>; on \<^verbatim>\<open>data.ErrNotFound\<close> it returns; with
  the object at hand it returns as well. It sends nothing and returns no error.
\<close>

definition handleRqObject :: "Node \<Rightarrow> Conn \<Rightarrow> uint32 \<Rightarrow> SHA256 \<Rightarrow> error option outcome" where
  "handleRqObject n c sq key =
     (case Get n key of
        (val, Some err) \<Rightarrow>
          (if err \<noteq> ErrNotFound
           then Returned None
                  (c\<lparr>nlog := nlog c @ [Fatal (''[ERR] CXDS DB failure:'' @ Error n err)]\<rparr>)
           else Returned None c)
      | (val, None) \<Rightarrow> Returned None c)"

text \<open>
  \<^verbatim>\<open>handle\<close> dispatches on the type of the message; \<^verbatim>\<open>List\<close>, \<^verbatim>\<open>Ok\<close> and \<^verbatim>\<open>Err\<close> are
  responses and have no case, so they fall to the default, which returns an error.
\<close>

definition handle :: "Node \<Rightarrow> Conn \<Rightarrow> uint32 \<Rightarrow> Msg \<Rightarrow> error option outcome" where
  "handle n c sq m =
     (case m of
        MsgSub feed \<Rightarrow> handleSub n c sq feed
      | MsgUnsub feed \<Rightarrow> handleUnsub n c sq feed
      | MsgRqList \<Rightarrow> handleRqList n c sq
      | MsgRoot feed nonce rseq sig val \<Rightarrow> handleRoot n c m
      | MsgRootDone feed nonce rseq \<Rightarrow> handleRootDone n c m
      | MsgRootErr feed nonce rseq reason \<Rightarrow> handleRootErr n c m
      | MsgRqObject key prefetch \<Rightarrow> handleRqObject n c sq key
      | MsgObject val vals \<Rightarrow> handleObject n c m
      | MsgRqPreview feed \<Rightarrow> handleRqPreview n c sq m
      | _ \<Rightarrow> Returned (Some (ErrText ''invalid messege type'')) c)"

section \<open>The receive loop\<close>

text \<open>
  What the \<^verbatim>\<open>select\<close> of the loop can yield: a frame from the inbound queue, the
  inbound queue closed (\<^verbatim>\<open>ok == false\<close>), or the close signal.
\<close>

datatype recv_event = Frame "byte list" | InClosed | CloseSignal

text \<open>
  Where a decoded frame goes: to the channel of a pending request, or to \<^verbatim>\<open>handle\<close>.
  The loop below returns the list of these, in order, next to its outcome.
\<close>

datatype dispatch = ToRequest uint32 Msg | ToHandler uint32 Msg

text \<open>
  \<^verbatim>\<open>receiving\<close>, over the events it is given; with none left it waits in the
  \<^verbatim>\<open>select\<close>. A frame shorter than nine bytes, a frame that does not decode and an error
  of \<^verbatim>\<open>handle\<close> each end the loop through \<^verbatim>\<open>fatality\<close>. A frame whose response sequence
  is that of a pending request is sent on the channel of the request: the loop goes on
  once the other side of the channel has taken it, and the other side is the
  \<^verbatim>\<open>select\<close> of \<^verbatim>\<open>sendRequest\<close>.
\<close>

fun receiving :: "Node \<Rightarrow> Conn \<Rightarrow> recv_event list \<Rightarrow> dispatch list \<times> unit outcome" where
  "receiving n c [] = ([], Blocked c)"
| "receiving n c (InClosed # es) = ([], Returned () c)"
| "receiving n c (CloseSignal # es) = ([], Returned () c)"
| "receiving n c (Frame raw # es) =
     (if length raw < 9
      then ([], Returned () (fatality c ''invalid messege received: samll size''))
      else case Uint32 raw of
             None \<Rightarrow> ([], Panicked c)
           | Some sq \<Rightarrow>
               (case Uint32 (drop 4 raw) of
                  None \<Rightarrow> ([], Panicked c)
                | Some rseq \<Rightarrow>
                    (case Decode n (drop 4 (drop 4 raw)) of
                       Inl err \<Rightarrow>
                         ([], Returned ()
                                (fatality c (''can't decode received messege: '' @ Error n err)))
                     | Inr m \<Rightarrow>
                         (case isResponse c rseq of
                            Blocked b \<Rightarrow> ([], Blocked b)
                          | Panicked b \<Rightarrow> ([], Panicked b)
                          | Returned (Some rq) c1 \<Rightarrow>
                              (case rendezvous (receiving_rq_op m) sendRequest_rq_op of
                                 None \<Rightarrow> ([ToRequest rq m], Blocked c1)
                               | Some v \<Rightarrow>
                                   (case receiving n c1 es of
                                      (ds, out) \<Rightarrow> (ToRequest rq m # ds, out)))
                          | Returned None c1 \<Rightarrow>
                              (case handle n c1 sq m of
                                 Blocked b \<Rightarrow> ([ToHandler sq m], Blocked b)
                               | Panicked b \<Rightarrow> ([ToHandler sq m], Panicked b)
                               | Returned (Some err) c2 \<Rightarrow>
                                   ([ToHandler sq m],
                                    Returned ()
                                      (fatality c2 (''error handling messege: '' @ Error n err)))
                               | Returned None c2 \<Rightarrow>
                                   (case receiving n c2 es of
                                      (ds, out) \<Rightarrow> (ToHandler sq m # ds, out)))))))"

section \<open>The client and its list of subscriptions\<close>

text \<open>
  The \<^verbatim>\<open>Client\<close> keeps two slices of public keys: \<^verbatim>\<open>feeds\<close>, its subscriptions, and
  \<^verbatim>\<open>srvfs\<close>, the feeds of the server. A slice is the list of its elements; a nil slice
  and an empty one are both the empty list.
\<close>

record Client =
  client_feeds :: "PubKey list"
  client_srvfs :: "PubKey list"

text \<open>
  \<^verbatim>\<open>make([]T, len, cap)\<close> is a slice of \<^verbatim>\<open>len\<close> zero values. \<^verbatim>\<open>copy(dst, src)\<close> copies as
  many elements as the shorter of the two slices has, into the front of \<^verbatim>\<open>dst\<close>, whose
  length stays.
\<close>

definition make_slice :: "nat \<Rightarrow> nat \<Rightarrow> PubKey list" where
  "make_slice len cap = replicate len blank_PubKey"

definition copy_slice :: "'a list \<Rightarrow> 'a list \<Rightarrow> 'a list" where
  "copy_slice dst src =
     (let k = min (length dst) (length src) in take k src @ drop k dst)"

primrec hasServerFeed_loop :: "PubKey list \<Rightarrow> PubKey \<Rightarrow> bool" where
  "hasServerFeed_loop [] feed = False"
| "hasServerFeed_loop (sf # rest) feed = (if sf = feed then True else hasServerFeed_loop rest feed)"

definition hasServerFeed :: "Client \<Rightarrow> PubKey \<Rightarrow> bool" where
  "hasServerFeed c feed = hasServerFeed_loop (client_srvfs c) feed"

primrec hasFeed_loop :: "PubKey list \<Rightarrow> PubKey \<Rightarrow> bool" where
  "hasFeed_loop [] feed = False"
| "hasFeed_loop (f # rest) feed = (if f = feed then True else hasFeed_loop rest feed)"

definition hasFeed :: "Client \<Rightarrow> PubKey \<Rightarrow> bool" where
  "hasFeed c feed = hasFeed_loop (client_feeds c) feed"

text \<open>
  \<^verbatim>\<open>Client.Subscribe\<close> appends the feed when the server has it and the client has not.
  \<^verbatim>\<open>sendMessage\<close> acts on the network connection only, which is not part of this
  record; \<open>sent\<close> is the value it returns.
\<close>

definition Client_Subscribe :: "Client \<Rightarrow> PubKey \<Rightarrow> bool \<Rightarrow> bool \<times> Client" where
  "Client_Subscribe c feed sent =
     (if \<not> hasServerFeed c feed then (False, c)
      else if hasFeed c feed then (False, c)
      else (sent, c\<lparr>client_feeds := client_feeds c @ [feed]\<rparr>))"

text \<open>
  \<^verbatim>\<open>Client.Feeds\<close>: nothing for an empty slice; otherwise a slice made with length 0
  (and the capacity of \<^verbatim>\<open>c.feeds\<close>), into which \<^verbatim>\<open>c.feeds\<close> is copied with \<^verbatim>\<open>copy\<close>.
\<close>

definition Client_Feeds :: "Client \<Rightarrow> PubKey list" where
  "Client_Feeds c =
     (if length (client_feeds c) = 0 then []
      else copy_slice (make_slice 0 (length (client_feeds c))) (client_feeds c))"

section \<open>A node and a peer for the examples\<close>

text \<open>
  A node whose codec puts every message into one byte and reads \<^verbatim>\<open>Ok\<close> from every
  payload, with a response timeout, that shares every feed and accepts every
  subscription, whose container holds Root 7 of the head that every received Root
  belongs to and has no object, and whose filler counts the Roots it is given.
\<close>

definition sample_Root :: "uint64 \<Rightarrow> Root" where
  "sample_Root k = \<lparr> Pub = [1], Nonce = 0, Seq = k, IsFull = False \<rparr>"

definition sample_Node :: Node where
  "sample_Node =
     \<lparr> Encode = (\<lambda>m. [1]),
       Decode = (\<lambda>raw. Inr MsgOk),
       Error_text = (\<lambda>e. ''error''),
       ResponseTimeout = 5,
       Public = False,
       Share = (\<lambda>pk. None),
       onSubscribeRemote = (\<lambda>pk. None),
       fc = (\<lambda>pk. True),
       node_Feeds = [],
       ReceivedRoot = (\<lambda>sig val. Inr (sample_Root 3)),
       LastRoot = (\<lambda>pk nonce. (Some (sample_Root 7), None)),
       Get = (\<lambda>key. ([], Some ErrNotFound)),
       Short = (\<lambda>r. ''root''),
       addToFiller = (\<lambda>c feed r. c\<lparr>fillingRoots := fillingRoots c + 1\<rparr>),
       unholdSent = (\<lambda>cf. cf\<lparr>heads := Map.empty\<rparr>) \<rparr>"

definition sample_Conn :: Conn where
  "sample_Conn = newConnection ''127.0.0.1:8887'' True True"

section \<open>The frame that \<^verbatim>\<open>encodeMsg\<close> builds\<close>

lemma Uint32_le_bytes: "Uint32 (le_bytes v @ rest) = Some v"
proof -
  have "(ucast (ucast v :: byte) OR push_bit 8 (ucast (ucast (drop_bit 8 v) :: byte)) OR
          push_bit 16 (ucast (ucast (drop_bit 16 v) :: byte)) OR
          push_bit 24 (ucast (ucast (drop_bit 24 v) :: byte)) :: uint32) = v"
  proof (rule bit_word_eqI)
    fix k :: nat
    assume k: "k < LENGTH(32)"
    consider "k < 8" | "8 \<le> k" "k < 16" | "16 \<le> k" "k < 24" | "24 \<le> k"
      by linarith
    then show "bit (ucast (ucast v :: byte) OR push_bit 8 (ucast (ucast (drop_bit 8 v) :: byte)) OR
                    push_bit 16 (ucast (ucast (drop_bit 16 v) :: byte)) OR
                    push_bit 24 (ucast (ucast (drop_bit 24 v) :: byte)) :: uint32) k = bit v k"
      using k by cases (auto simp: bit_simps)
  qed
  then show ?thesis
    by (simp add: Uint32_def le_bytes_def)
qed

lemma PutUint32_zeros: "PutUint32 (replicate 8 0) v = Some (le_bytes v @ [0, 0, 0, 0])"
  by (simp add: PutUint32_def le_bytes_def eval_nat_numeral)

lemma PutUint32_four: "PutUint32 [a, b, c, d] v = Some (le_bytes v)"
  by (simp add: PutUint32_def le_bytes_def)

lemma encodeMsg_eq: "encodeMsg enc sq rseq m = Some (le_bytes rseq @ [0, 0, 0, 0] @ enc m)"
  by (simp add: encodeMsg_def PutUint32_zeros PutUint32_four le_bytes_def)

lemma Uint32_zeros: "Uint32 ([0, 0, 0, 0] @ rest) = Some 0"
  by (simp add: Uint32_def)

lemma decodeRaw_header:
  "rest \<noteq> [] \<Longrightarrow> decodeRaw dec (le_bytes a @ le_bytes b @ rest) =
     (case dec rest of Inl e \<Rightarrow> Inl e | Inr m \<Rightarrow> Inr (a, b, m))"
  using Uint32_le_bytes [of a "le_bytes b @ rest"] Uint32_le_bytes [of b rest]
  by (simp add: decodeRaw_def) (simp add: le_bytes_def)

text \<open>
  C2 (frame layout and round trip). The claim is that the frame holds the sequence
  number in its first four bytes and the response sequence number in the next four, so
  that decoding gives back both numbers and the message. The frame that \<^verbatim>\<open>encodeMsg\<close>
  builds holds the response sequence number in its first four bytes and zeros in the
  next four: the second \<^verbatim>\<open>PutUint32\<close> writes to \<^verbatim>\<open>raw[:4]\<close>, over the sequence number
  written by the first. \<^verbatim>\<open>decodeRaw\<close> reads such a frame as sequence number \<open>rseq\<close> and
  response sequence number 0.
\<close>

theorem encodeMsg_puts_rseq_first:
  "encodeMsg enc sq rseq m = Some (le_bytes rseq @ [0, 0, 0, 0] @ enc m) \<and>
   map_option (decodeRaw dec) (encodeMsg enc sq rseq m) =
     Some (if enc m = [] then Inl (ErrText ''invlaid messege received: too short'')
           else case dec (enc m) of Inl e \<Rightarrow> Inl e | Inr m' \<Rightarrow> Inr (rseq, 0, m'))"
proof -
  have z: "[0, 0, 0, 0] = le_bytes 0"
    by (simp add: le_bytes_def)
  have short: "enc m = [] \<Longrightarrow> decodeRaw dec (le_bytes rseq @ [0, 0, 0, 0] @ enc m)
                  = Inl (ErrText ''invlaid messege received: too short'')"
    by (simp add: decodeRaw_def le_bytes_def)
  show ?thesis
    using decodeRaw_header [of "enc m" dec rseq 0] short
    by (simp add: encodeMsg_eq z [symmetric])
qed

section \<open>Sequence numbers\<close>

lemma nextSeqs_above:
  "unat (seq c) + k < 2 ^ 32 \<Longrightarrow> \<forall>s \<in> set (nextSeqs k c). seq c < s"
proof (induction k arbitrary: c)
  case 0
  then show ?case by simp
next
  case (Suc k)
  let ?c' = "c\<lparr>seq := seq c + 1\<rparr>"
  from Suc.prems have u: "unat (seq c + 1) = unat (seq c) + 1"
    by (simp add: unat_word_ariths)
  then have lt: "seq c < seq c + 1"
    by (simp add: word_less_nat_alt)
  from Suc.prems u have "unat (seq ?c') + k < 2 ^ 32"
    by simp
  from Suc.IH [OF this] have "\<forall>s \<in> set (nextSeqs k ?c'). seq c + 1 < s"
    by simp
  with lt show ?case
    by (auto simp: nextSeq_def)
qed

lemma nextSeqs_sorted:
  "unat (seq c) + k < 2 ^ 32 \<Longrightarrow> sorted_wrt (<) (nextSeqs k c)"
proof (induction k arbitrary: c)
  case 0
  then show ?case by simp
next
  case (Suc k)
  let ?c' = "c\<lparr>seq := seq c + 1\<rparr>"
  from Suc.prems have u: "unat (seq c + 1) = unat (seq c) + 1"
    by (simp add: unat_word_ariths)
  with Suc.prems have b: "unat (seq ?c') + k < 2 ^ 32"
    by simp
  from nextSeqs_above [OF b] Suc.IH [OF b] show ?case
    by (simp add: nextSeq_def)
qed

lemma nextSeqs_2: "nextSeqs 2 c = [seq c + 1, seq c + 1 + 1]"
  by (simp add: numeral_2_eq_2 nextSeq_def)

lemma nextSeqs_3: "nextSeqs 3 c = [seq c + 1, seq c + 1 + 1, seq c + 1 + 1 + 1]"
  by (simp add: numeral_3_eq_3 nextSeq_def)

lemma nextSeqs_map: "nextSeqs k c = map (\<lambda>i. seq c + of_nat (Suc i)) [0..<k]"
proof (induction k arbitrary: c)
  case 0
  then show ?case by simp
next
  case (Suc k)
  have "map (\<lambda>i. seq c + 1 + of_nat (Suc i)) [0..<k] = map (\<lambda>i. seq c + of_nat (Suc i)) [Suc 0..<Suc k]"
    by (simp add: map_Suc_upt [symmetric] add.assoc del: upt_Suc)
  then show ?case
    using Suc.IH [of "c\<lparr>seq := seq c + 1\<rparr>"]
    by (simp add: nextSeq_def upt_rec [of 0 "Suc k"] del: upt_Suc)
qed

lemma of_nat_Suc_inj32:
  assumes "i < 2 ^ 32" "j < 2 ^ 32" "(of_nat (Suc i) :: uint32) = of_nat (Suc j)"
  shows "i = j"
proof -
  from assms(3) have "(of_nat i :: uint32) = of_nat j"
    by simp
  then have "i mod 2 ^ 32 = j mod 2 ^ 32"
    by (simp add: word_of_nat_eq_iff take_bit_eq_mod)
  with assms(1,2) show ?thesis
    by simp
qed

lemma nextSeqs_distinct: "k \<le> 2 ^ 32 \<Longrightarrow> distinct (nextSeqs k c)"
proof -
  assume k: "k \<le> 2 ^ 32"
  have "inj_on (\<lambda>i. seq c + of_nat (Suc i)) {0..<k}"
  proof (rule inj_onI)
    fix i j
    assume "i \<in> {0..<k}" "j \<in> {0..<k}" "seq c + of_nat (Suc i) = seq c + of_nat (Suc j)"
    with k show "i = j"
      using of_nat_Suc_inj32 [of i j] by simp
  qed
  then show ?thesis
    by (simp add: nextSeqs_map distinct_map)
qed

lemma nextSeqs_reuse: "\<not> distinct (nextSeqs (2 ^ 32 + 1) c)"
proof -
  let ?f = "\<lambda>i. seq c + of_nat (Suc i)"
  have "?f 0 = ?f (2 ^ 32)"
    by simp
  moreover have "(0::nat) \<in> {0..<2 ^ 32 + 1}" "(2 ^ 32 :: nat) \<in> {0..<2 ^ 32 + 1}" "(0::nat) \<noteq> 2 ^ 32"
    by simp_all
  ultimately have "\<not> inj_on ?f {0..<2 ^ 32 + 1}"
    unfolding inj_on_def by blast
  then show ?thesis
    by (simp add: nextSeqs_map distinct_map del: upt_Suc)
qed


text \<open>
  C6 (sequence numbers), as the counter behaves. As long as the 32-bit counter does not
  pass its greatest value, the numbers that successive calls of \<^verbatim>\<open>nextSeq\<close> return are
  strictly increasing and greater than the counter was. From any state of the counter,
  up to \<open>2 ^ 32\<close> successive calls return numbers that are all different. The call that
  finds the counter at its greatest value 4294967295 returns 0.
\<close>

theorem nextSeq_increasing_until_wrap:
  "(unat (seq c) + k < 2 ^ 32 \<longrightarrow>
      sorted_wrt (<) (nextSeqs k c) \<and> (\<forall>s \<in> set (nextSeqs k c). seq c < s)) \<and>
   (k \<le> 2 ^ 32 \<longrightarrow> distinct (nextSeqs k c)) \<and>
   (seq c = 4294967295 \<longrightarrow> fst (nextSeq c) = 0)"
  using nextSeqs_sorted [of c k] nextSeqs_above [of c k] nextSeqs_distinct [of k c]
  by (simp add: nextSeq_def)

text \<open>
  The theorem at a new connection, where the first three numbers are 1, 2 and 3, and at
  a connection whose counter is 4294967295.
\<close>

theorem nextSeq_increasing_until_wrap_witness:
  "unat (seq (newConnection ''peer'' False True)) + 3 < 2 ^ 32 \<and>
   nextSeqs 3 (newConnection ''peer'' False True) = [1, 2, 3] \<and>
   sorted_wrt (<) (nextSeqs 3 (newConnection ''peer'' False True)) \<and>
   distinct (nextSeqs 3 (newConnection ''peer'' False True)) \<and>
   seq ((newConnection ''peer'' False True)\<lparr>seq := 4294967295\<rparr>) = 4294967295 \<and>
   fst (nextSeq ((newConnection ''peer'' False True)\<lparr>seq := 4294967295\<rparr>)) = 0"
proof -
  let ?c = "newConnection ''peer'' False True"
  have pre: "unat (seq ?c) + 3 < 2 ^ 32" "(3::nat) \<le> 2 ^ 32"
    by (simp_all add: newConnection_def)
  have vals: "nextSeqs 3 ?c = [1, 2, 3]"
    by (simp add: nextSeqs_3 newConnection_def)
  from nextSeq_increasing_until_wrap [of ?c 3] pre
  have a: "sorted_wrt (<) (nextSeqs 3 ?c)" "distinct (nextSeqs 3 ?c)"
    by blast+
  from nextSeq_increasing_until_wrap [of "?c\<lparr>seq := 4294967295\<rparr>" 0]
  have b: "fst (nextSeq (?c\<lparr>seq := 4294967295\<rparr>)) = 0"
    by simp
  from pre vals a b show ?thesis
    by simp
qed

text \<open>
  C6 as it is stated fails in both parts. From 4294967294 the next two numbers are
  4294967295 and 0, which is not increasing; and among the first \<open>2 ^ 32 + 1\<close> numbers
  of a new connection one is used twice.
\<close>

theorem nextSeq_wraps_counterexample:
  "nextSeqs 2 ((newConnection ''peer'' False True)\<lparr>seq := 4294967294\<rparr>) = [4294967295, 0] \<and>
   \<not> sorted_wrt (<) (nextSeqs 2 ((newConnection ''peer'' False True)\<lparr>seq := 4294967294\<rparr>)) \<and>
   \<not> distinct (nextSeqs (2 ^ 32 + 1) (newConnection ''peer'' False True))"
  using nextSeqs_reuse [of "newConnection ''peer'' False True"]
  by (simp add: nextSeqs_2)

section \<open>The list that \<^verbatim>\<open>Client.Feeds\<close> returns\<close>

text \<open>
  C10 (list of subscriptions). The claim is that \<^verbatim>\<open>Feeds\<close> returns the feeds the client
  is subscribed to, in order. The slice it copies into has length 0, so \<^verbatim>\<open>copy\<close> copies
  nothing: \<^verbatim>\<open>Feeds\<close> returns no element, whatever the subscriptions are; so it does
  for the client that has just subscribed to the one feed \<open>pk\<close> of its server.
\<close>

theorem Client_Feeds_empty:
  "Client_Feeds c = [] \<and>
   (case Client_Subscribe \<lparr>client_feeds = [], client_srvfs = [pk]\<rparr> pk True of
      (ok, c') \<Rightarrow> ok \<and> client_feeds c' = [pk] \<and> Client_Feeds c' = [])"
  by (simp add: Client_Feeds_def copy_slice_def make_slice_def Client_Subscribe_def
        hasServerFeed_def hasFeed_def)

section \<open>Stale Roots\<close>

lemma Lock_free: "\<not> mx c \<Longrightarrow> Lock c = Some (c\<lparr>mx := True\<rparr>)"
  by (simp add: Lock_def)

lemma Lock_held: "mx c \<Longrightarrow> Lock c = None"
  by (simp add: Lock_def)

lemma Unlock_locked: "\<not> mx c \<Longrightarrow> Unlock (c\<lparr>mx := True\<rparr>) = c"
  by (simp add: Unlock_def)

text \<open>
  C3 (stale Root). The connection shares the feed and its mutex is free; the container
  accepts the announced Root as \<open>r\<close> and holds a last Root \<open>l\<close> of the head of \<open>r\<close>
  with a sequence number that is not smaller. Then \<^verbatim>\<open>handleRoot\<close> returns without an
  error and leaves the connection as it was, whatever \<^verbatim>\<open>addToFiller\<close> would do (so it is
  not called), and so does \<^verbatim>\<open>handle\<close> for the announcement.
\<close>

theorem handleRoot_drops_stale_Root:
  assumes "\<not> mx c" and "feeds c feed = Some cf"
    and "ReceivedRoot n sig val = Inr r"
    and "LastRoot n (Pub r) (Nonce r) = (Some l, None)"
    and "Seq r \<le> Seq l"
  shows "handleRoot n c (MsgRoot feed nonce sq sig val) = Returned None c \<and>
         handleRoot (n\<lparr>addToFiller := f\<rparr>) c (MsgRoot feed nonce sq sig val) = Returned None c \<and>
         handle n c hsq (MsgRoot feed nonce sq sig val) = Returned None c"
  using assms by (simp add: handleRoot_def handle_def Lock_free Unlock_locked)


text \<open>
  The theorem at a connection that shares feed 9, with Root 3 announced and Root 7
  stored. For comparison, Root 8 is given to the filler.
\<close>

theorem handleRoot_drops_stale_Root_witness:
  "handleRoot sample_Node (sample_Conn\<lparr>feeds := [[9] \<mapsto> new_connFeed]\<rparr>) (MsgRoot [9] 0 3 [] [])
     = Returned None (sample_Conn\<lparr>feeds := [[9] \<mapsto> new_connFeed]\<rparr>) \<and>
   handleRoot (sample_Node\<lparr>ReceivedRoot := \<lambda>sig val. Inr (sample_Root 8)\<rparr>)
       (sample_Conn\<lparr>feeds := [[9] \<mapsto> new_connFeed]\<rparr>) (MsgRoot [9] 0 8 [] [])
     = Returned None (sample_Conn\<lparr>feeds := [[9] \<mapsto> new_connFeed], fillingRoots := 1\<rparr>)"
proof -
  let ?c = "sample_Conn\<lparr>feeds := [[9] \<mapsto> new_connFeed]\<rparr>"
  have free: "\<not> mx ?c"
    by (simp add: sample_Conn_def newConnection_def)
  have sub: "feeds ?c [9] = Some new_connFeed"
    by simp
  have rr: "ReceivedRoot sample_Node [] [] = Inr (sample_Root 3)"
    by (simp add: sample_Node_def)
  have lr: "LastRoot sample_Node (Pub (sample_Root 3)) (Nonce (sample_Root 3))
              = (Some (sample_Root 7), None)"
    by (simp add: sample_Node_def)
  have le: "Seq (sample_Root 3) \<le> Seq (sample_Root 7)"
    by (simp add: sample_Root_def)
  have fresh: "handleRoot (sample_Node\<lparr>ReceivedRoot := \<lambda>sig val. Inr (sample_Root 8)\<rparr>)
       ?c (MsgRoot [9] 0 8 [] []) = Returned None (?c\<lparr>fillingRoots := 1\<rparr>)"
    by (simp add: handleRoot_def Lock_def Unlock_def sample_Node_def sample_Root_def
          sample_Conn_def newConnection_def)
  from handleRoot_drops_stale_Root [OF free sub rr lr le, of 0 3] fresh show ?thesis
    by simp
qed

section \<open>Requests for objects that are not there\<close>

text \<open>
  C9 (object not found). When the container answers \<^verbatim>\<open>data.ErrNotFound\<close>,
  \<^verbatim>\<open>handleRqObject\<close> returns without an error and leaves the connection as it was:
  nothing is sent and nothing is logged; so does \<^verbatim>\<open>handle\<close>, and the receive loop goes
  on with the next event. Whatever the container answers, the handler returns no error
  and sends nothing; it calls \<^verbatim>\<open>Fatal\<close>, and so changes anything at all, exactly when the
  container returns an error other than \<^verbatim>\<open>data.ErrNotFound\<close>.
\<close>

theorem handleRqObject_not_found_sends_nothing:
  "(snd (Get n key) = Some ErrNotFound \<longrightarrow>
      handleRqObject n c sq key = Returned None c \<and>
      handle n c sq (MsgRqObject key prefetch) = Returned None c \<and>
      (\<not> mx c \<and> 9 \<le> length raw \<and> Uint32 raw = Some sq \<and> Uint32 (drop 4 raw) = Some rseq \<and>
       Decode n (drop 4 (drop 4 raw)) = Inr (MsgRqObject key prefetch) \<and> reqs c rseq = None \<longrightarrow>
         receiving n c (Frame raw # es) =
           (case receiving n c es of
              (ds, out) \<Rightarrow> (ToHandler sq (MsgRqObject key prefetch) # ds, out)))) \<and>
   (\<exists>c'. handleRqObject n c sq key = Returned None c' \<and> sendq c' = sendq c \<and>
         conn_closed c' = conn_closed c \<and>
         ((\<exists>t. nlog c' = nlog c @ [Fatal t]) = (\<exists>e. snd (Get n key) = Some e \<and> e \<noteq> ErrNotFound)) \<and>
         ((c' = c) = (\<forall>e. snd (Get n key) = Some e \<longrightarrow> e = ErrNotFound)))"
proof -
  obtain val err where g: "Get n key = (val, err)"
    by (cases "Get n key")
  have nf: "err = Some ErrNotFound \<Longrightarrow> handleRqObject n c sq key = Returned None c"
    using g by (simp add: handleRqObject_def)
  have loop: "receiving n c (Frame raw # es) =
           (case receiving n c es of
              (ds, out) \<Rightarrow> (ToHandler sq (MsgRqObject key prefetch) # ds, out))"
    if "err = Some ErrNotFound" "\<not> mx c" "9 \<le> length raw" "Uint32 raw = Some sq"
       "Uint32 (drop 4 raw) = Some rseq"
       "Decode n (drop 4 (drop 4 raw)) = Inr (MsgRqObject key prefetch)" "reqs c rseq = None"
    using that nf
    by (simp add: isResponse_def Lock_free Unlock_locked handle_def)
  have neq: "c\<lparr>nlog := nlog c @ [x]\<rparr> \<noteq> c" for x
  proof
    assume "c\<lparr>nlog := nlog c @ [x]\<rparr> = c"
    then have "nlog (c\<lparr>nlog := nlog c @ [x]\<rparr>) = nlog c"
      by simp
    then show False
      by simp
  qed
  have second: "\<exists>c'. handleRqObject n c sq key = Returned None c' \<and> sendq c' = sendq c \<and>
         conn_closed c' = conn_closed c \<and>
         ((\<exists>t. nlog c' = nlog c @ [Fatal t]) = (\<exists>e. err = Some e \<and> e \<noteq> ErrNotFound)) \<and>
         ((c' = c) = (\<forall>e. err = Some e \<longrightarrow> e = ErrNotFound))"
    using g neq by (cases err) (auto simp: handleRqObject_def)
  show ?thesis
    using g nf loop second by (simp add: handle_def)
qed



lemma Uint32_sample: "Uint32 [5, 0, 0, 0, 0, 0, 0, 0, 1] = Some 5" "Uint32 (drop 4 [5, 0, 0, 0, 0, 0, 0, 0, 1]) = Some 0"
  by (simp_all add: Uint32_def)

text \<open>
  The theorem at a frame with sequence number 5 that asks for object 7, which the
  container of the sample node does not have; the inbound queue is closed after it.
\<close>

theorem handleRqObject_not_found_sends_nothing_witness:
  "snd (Get sample_Node [7]) = Some ErrNotFound \<and>
   handleRqObject sample_Node sample_Conn 5 [7] = Returned None sample_Conn \<and>
   receiving (sample_Node\<lparr>Decode := \<lambda>raw. Inr (MsgRqObject [7] False)\<rparr>) sample_Conn
       [Frame [5, 0, 0, 0, 0, 0, 0, 0, 1], InClosed]
     = ([ToHandler 5 (MsgRqObject [7] False)], Returned () sample_Conn)"
proof -
  let ?n = "sample_Node\<lparr>Decode := \<lambda>raw. Inr (MsgRqObject [7] False)\<rparr>"
  have g: "snd (Get ?n [7]) = Some ErrNotFound" "snd (Get sample_Node [7]) = Some ErrNotFound"
    by (simp_all add: sample_Node_def)
  have pre: "\<not> mx sample_Conn \<and> 9 \<le> length [5, 0, 0, 0, 0, 0, 0, 0, 1 :: byte] \<and>
       Uint32 [5, 0, 0, 0, 0, 0, 0, 0, 1] = Some 5 \<and>
       Uint32 (drop 4 [5, 0, 0, 0, 0, 0, 0, 0, 1]) = Some 0 \<and>
       Decode ?n (drop 4 (drop 4 [5, 0, 0, 0, 0, 0, 0, 0, 1])) = Inr (MsgRqObject [7] False) \<and>
       reqs sample_Conn 0 = None"
    using Uint32_sample by (simp add: sample_Conn_def newConnection_def)
  from handleRqObject_not_found_sends_nothing
         [of ?n "[7]" sample_Conn 5 False "[5, 0, 0, 0, 0, 0, 0, 0, 1]" 0 "[InClosed]"] g(1) pre
  have "receiving ?n sample_Conn [Frame [5, 0, 0, 0, 0, 0, 0, 0, 1], InClosed]
          = ([ToHandler 5 (MsgRqObject [7] False)], Returned () sample_Conn)"
    by simp
  moreover from handleRqObject_not_found_sends_nothing
         [of sample_Node "[7]" sample_Conn 5 False "[]" 0 "[]"] g(2)
  have "handleRqObject sample_Node sample_Conn 5 [7] = Returned None sample_Conn"
    by simp
  ultimately show ?thesis
    using g(2) by simp
qed

section \<open>Subscribing twice\<close>

lemma sendRaw_open: "\<not> closeq_closed c \<Longrightarrow> sendRaw c raw = c\<lparr>sendq := sendq c @ [raw]\<rparr>"
  by (simp add: sendRaw_def)

lemma sendOk_open:
  "\<not> closeq_closed c \<Longrightarrow>
     sendOk n c rseq = c\<lparr>seq := seq c + 1,
                          sendq := sendq c @ [le_bytes rseq @ [0, 0, 0, 0] @ Encode n MsgOk]\<rparr>"
  by (simp add: sendOk_def nextSeq_def sendMsg_def encodeMsg_eq sendRaw_def)

lemma handleSub_known:
  assumes "\<not> mx c" "\<not> closeq_closed c" "feed \<noteq> blank_PubKey" "feeds c feed = Some cf"
  shows "handleSub n c sq feed =
           Returned None (c\<lparr>seq := seq c + 1,
                             sendq := sendq c @ [le_bytes sq @ [0, 0, 0, 0] @ Encode n MsgOk]\<rparr>)"
proof -
  let ?c1 = "c\<lparr>mx := True\<rparr>"
  have "handleSub n c sq feed = Returned None (Unlock (sendOk n ?c1 sq))"
    using assms by (simp add: handleSub_def Lock_free)
  also have "Unlock (sendOk n ?c1 sq) =
       c\<lparr>seq := seq c + 1, sendq := sendq c @ [le_bytes sq @ [0, 0, 0, 0] @ Encode n MsgOk]\<rparr>"
    using assms by (simp add: sendOk_open Unlock_def) 
  finally show ?thesis .
qed

lemma handleSub_new:
  assumes "\<not> mx c" "\<not> closeq_closed c" "feed \<noteq> blank_PubKey" "feeds c feed = None"
    "onSubscribeRemote n feed = None" "fc n feed"
  shows "handleSub n c sq feed =
           Returned None (c\<lparr>seq := seq c + 1,
                             sendq := sendq c @ [le_bytes sq @ [0, 0, 0, 0] @ Encode n MsgOk],
                             feeds := (feeds c)(feed \<mapsto> new_connFeed),
                             nlog := nlog c @ [AddConnFeed feed]\<rparr>)"
proof -
  let ?c3 = "c\<lparr>mx := True, nlog := nlog c @ [AddConnFeed feed],
               feeds := (feeds c)(feed \<mapsto> new_connFeed)\<rparr>"
  have "handleSub n c sq feed = Returned None (Unlock (sendOk n ?c3 sq))"
    using assms by (simp add: handleSub_def Lock_free)
  also have "Unlock (sendOk n ?c3 sq) =
       c\<lparr>seq := seq c + 1, sendq := sendq c @ [le_bytes sq @ [0, 0, 0, 0] @ Encode n MsgOk],
         feeds := (feeds c)(feed \<mapsto> new_connFeed), nlog := nlog c @ [AddConnFeed feed]\<rparr>"
    using assms by (simp add: sendOk_open Unlock_def)
  finally show ?thesis .
qed

lemma Subscribe_first:
  assumes "\<not> mx c" "feeds c feed = None"
  shows "Subscribe n c feed resp fired pick =
           (case Share n feed of
              Some err \<Rightarrow> Returned (Some err) c
            | None \<Rightarrow> Blocked (c\<lparr>mx := True, nlog := nlog c @ [Shared feed], seq := seq c + 1\<rparr>))"
  using assms
  by (cases "Share n feed")
     (simp_all add: Subscribe_def Lock_free Unlock_locked sendRequest_def nextSeq_def addRequest_def
        Lock_def)

lemma Subscribe_held: "mx c \<Longrightarrow> Subscribe n c feed resp fired pick = Blocked c"
  by (simp add: Subscribe_def Lock_def)

lemma decodeRaw_Ok_frame:
  assumes "Encode n MsgOk \<noteq> []" "Decode n (Encode n MsgOk) = Inr MsgOk"
  shows "decodeRaw (Decode n) (le_bytes sq @ [0, 0, 0, 0] @ Encode n MsgOk) = Inr (sq, 0, MsgOk)"
proof -
  have z: "[0, 0, 0, 0] = le_bytes 0"
    by (simp add: le_bytes_def)
  show ?thesis
    using decodeRaw_header [of "Encode n MsgOk" "Decode n" sq 0] assms
    by (simp add: z [symmetric])
qed

lemma le_bytes_small: "le_bytes 4 = [4, 0, 0, 0]" "le_bytes 6 = [6, 0, 0, 0]" "le_bytes 0 = [0, 0, 0, 0]"
  by (simp_all add: le_bytes_def)

text \<open>
  C7 (idempotent subscribe). The claim is that subscribing twice to a feed succeeds both
  times and leaves one entry. A local \<^verbatim>\<open>Subscribe\<close> for a feed that has no entry does
  not succeed: it returns the error of \<^verbatim>\<open>Share\<close>, or it goes on to \<^verbatim>\<open>sendRequest\<close> and
  stays blocked in \<^verbatim>\<open>addRequest\<close> on \<^verbatim>\<open>c.mx\<close>, which it holds itself; it creates no entry,
  and a second call finds the mutex held and stays blocked as well. With an entry
  there, \<^verbatim>\<open>Subscribe\<close> returns success and changes nothing, as claimed. Two inbound \<^verbatim>\<open>Sub\<close>
  messages that the node accepts leave one entry, as claimed, and each queues one frame
  for \<^verbatim>\<open>Ok\<close>; but the frame is the one \<^verbatim>\<open>encodeMsg\<close> builds, which a peer decodes with
  the sequence number of the \<^verbatim>\<open>Sub\<close> as its own and response sequence 0: it is not a
  response to the \<^verbatim>\<open>Sub\<close>.
\<close>

theorem Subscribe_twice_first_call_blocks:
  "(\<not> mx c \<and> feeds c feed = None \<longrightarrow>
      Subscribe n c feed resp fired pick =
        (case Share n feed of
           Some err \<Rightarrow> Returned (Some err) c
         | None \<Rightarrow> Blocked (c\<lparr>mx := True, nlog := nlog c @ [Shared feed], seq := seq c + 1\<rparr>))) \<and>
   (mx c \<longrightarrow> Subscribe n c feed resp2 fired2 pick2 = Blocked c) \<and>
   (\<not> mx c \<and> feeds c feed = Some cf \<longrightarrow>
      Subscribe n c feed resp fired pick = Returned None c) \<and>
   (\<not> mx c \<and> \<not> closeq_closed c \<and> feed \<noteq> blank_PubKey \<and> feeds c feed = None \<and>
    onSubscribeRemote n feed = None \<and> fc n feed \<and>
    Encode n MsgOk \<noteq> [] \<and> Decode n (Encode n MsgOk) = Inr MsgOk \<longrightarrow>
      (\<exists>c1 c2 raw1 raw2.
          handleSub n c sq feed = Returned None c1 \<and>
          handleSub n c1 sq2 feed = Returned None c2 \<and>
          sendq c1 = sendq c @ [raw1] \<and> sendq c2 = sendq c @ [raw1, raw2] \<and>
          feeds c1 = (feeds c)(feed \<mapsto> new_connFeed) \<and> feeds c2 = feeds c1 \<and>
          decodeRaw (Decode n) raw1 = Inr (sq, 0, MsgOk) \<and>
          decodeRaw (Decode n) raw2 = Inr (sq2, 0, MsgOk)))"
proof (intro conjI impI)
  assume "\<not> mx c \<and> feeds c feed = None"
  then show "Subscribe n c feed resp fired pick =
        (case Share n feed of
           Some err \<Rightarrow> Returned (Some err) c
         | None \<Rightarrow> Blocked (c\<lparr>mx := True, nlog := nlog c @ [Shared feed], seq := seq c + 1\<rparr>))"
    by (simp add: Subscribe_first)
next
  assume "mx c"
  then show "Subscribe n c feed resp2 fired2 pick2 = Blocked c"
    by (rule Subscribe_held)
next
  assume "\<not> mx c \<and> feeds c feed = Some cf"
  then show "Subscribe n c feed resp fired pick = Returned None c"
    by (simp add: Subscribe_def Lock_free Unlock_locked)
next
  assume a: "\<not> mx c \<and> \<not> closeq_closed c \<and> feed \<noteq> blank_PubKey \<and> feeds c feed = None \<and>
    onSubscribeRemote n feed = None \<and> fc n feed \<and>
    Encode n MsgOk \<noteq> [] \<and> Decode n (Encode n MsgOk) = Inr MsgOk"
  let ?r1 = "le_bytes sq @ [0, 0, 0, 0] @ Encode n MsgOk"
  let ?r2 = "le_bytes sq2 @ [0, 0, 0, 0] @ Encode n MsgOk"
  let ?c1 = "c\<lparr>seq := seq c + 1, sendq := sendq c @ [?r1],
               feeds := (feeds c)(feed \<mapsto> new_connFeed), nlog := nlog c @ [AddConnFeed feed]\<rparr>"
  let ?c2 = "?c1\<lparr>seq := seq ?c1 + 1, sendq := sendq ?c1 @ [?r2]\<rparr>"
  have h1: "handleSub n c sq feed = Returned None ?c1"
    using a by (simp add: handleSub_new)
  have h2: "handleSub n ?c1 sq2 feed = Returned None ?c2"
    using a by (intro handleSub_known [where cf = new_connFeed]) simp_all
  have d: "decodeRaw (Decode n) ?r1 = Inr (sq, 0, MsgOk)" "decodeRaw (Decode n) ?r2 = Inr (sq2, 0, MsgOk)"
    using a decodeRaw_Ok_frame [of n sq] decodeRaw_Ok_frame [of n sq2] by blast+
  show "\<exists>c1 c2 raw1 raw2.
          handleSub n c sq feed = Returned None c1 \<and>
          handleSub n c1 sq2 feed = Returned None c2 \<and>
          sendq c1 = sendq c @ [raw1] \<and> sendq c2 = sendq c @ [raw1, raw2] \<and>
          feeds c1 = (feeds c)(feed \<mapsto> new_connFeed) \<and> feeds c2 = feeds c1 \<and>
          decodeRaw (Decode n) raw1 = Inr (sq, 0, MsgOk) \<and>
          decodeRaw (Decode n) raw2 = Inr (sq2, 0, MsgOk)"
    apply (rule exI [of _ ?c1])
    apply (rule exI [of _ ?c2])
    apply (rule exI [of _ ?r1])
    apply (rule exI [of _ ?r2])
    using h1 h2 d by simp
qed


text \<open>
  The theorem at the sample connection and feed 9: the first local \<^verbatim>\<open>Subscribe\<close> stays
  blocked and so does the second; with the entry there from the start, \<^verbatim>\<open>Subscribe\<close>
  changes nothing; two inbound \<^verbatim>\<open>Sub\<close> messages with sequence numbers 4 and 6 leave one
  entry and two frames, which decode as messages 4 and 6 with response sequence 0.
\<close>

theorem Subscribe_twice_first_call_blocks_witness:
  "Subscribe sample_Node sample_Conn [9] None False 0 =
     Blocked (sample_Conn\<lparr>mx := True, nlog := [AddPendingConn, Shared [9]], seq := 1\<rparr>) \<and>
   Subscribe sample_Node
       (sample_Conn\<lparr>mx := True, nlog := [AddPendingConn, Shared [9]], seq := 1\<rparr>) [9] None False 0 =
     Blocked (sample_Conn\<lparr>mx := True, nlog := [AddPendingConn, Shared [9]], seq := 1\<rparr>) \<and>
   Subscribe sample_Node (sample_Conn\<lparr>feeds := [[9] \<mapsto> new_connFeed]\<rparr>) [9] None False 0
     = Returned None (sample_Conn\<lparr>feeds := [[9] \<mapsto> new_connFeed]\<rparr>) \<and>
   (\<exists>c1 c2 raw1 raw2.
       handleSub sample_Node sample_Conn 4 [9] = Returned None c1 \<and>
       handleSub sample_Node c1 6 [9] = Returned None c2 \<and>
       sendq c2 = [raw1, raw2] \<and> feeds c2 = [[9] \<mapsto> new_connFeed] \<and>
       decodeRaw (Decode sample_Node) raw1 = Inr (4, 0, MsgOk) \<and>
       decodeRaw (Decode sample_Node) raw2 = Inr (6, 0, MsgOk))"
proof -
  let ?b = "sample_Conn\<lparr>mx := True, nlog := [AddPendingConn, Shared [9]], seq := 1\<rparr>"
  let ?c = "sample_Conn\<lparr>feeds := [[9] \<mapsto> new_connFeed]\<rparr>"
  note main = Subscribe_twice_first_call_blocks
  have nb: "[9] \<noteq> blank_PubKey"
  proof
    assume "[9] = blank_PubKey"
    then have "length [9 :: byte] = length blank_PubKey"
      by simp
    then show False
      by (simp add: blank_PubKey_def)
  qed
  have vals: "seq sample_Conn = 0" "sendq sample_Conn = []" "feeds sample_Conn = Map.empty"
    "nlog sample_Conn = [AddPendingConn]" "\<not> mx sample_Conn" "\<not> closeq_closed sample_Conn"
    by (simp_all add: sample_Conn_def newConnection_def)
  have node: "Share sample_Node [9] = None" "onSubscribeRemote sample_Node [9] = None"
    "fc sample_Node [9]" "Encode sample_Node MsgOk \<noteq> []"
    "Decode sample_Node (Encode sample_Node MsgOk) = Inr MsgOk"
    by (simp_all add: sample_Node_def)
  from main [of sample_Conn "[9]" sample_Node None False 0 None False 0 new_connFeed 4 6] vals node
  have first: "Subscribe sample_Node sample_Conn [9] None False 0 = Blocked ?b"
    by simp
  from main [of ?b "[9]" sample_Node None False 0 None False 0 new_connFeed 4 6]
  have second: "Subscribe sample_Node ?b [9] None False 0 = Blocked ?b"
    by simp
  from main [of ?c "[9]" sample_Node None False 0 None False 0 new_connFeed 4 6] vals
  have known: "Subscribe sample_Node ?c [9] None False 0 = Returned None ?c"
    by simp
  from main [of sample_Conn "[9]" sample_Node None False 0 None False 0 new_connFeed 4 6] vals node nb
  have "\<exists>c1 c2 raw1 raw2.
       handleSub sample_Node sample_Conn 4 [9] = Returned None c1 \<and>
       handleSub sample_Node c1 6 [9] = Returned None c2 \<and>
       sendq c1 = [raw1] \<and> sendq c2 = [raw1, raw2] \<and>
       feeds c1 = [[9] \<mapsto> new_connFeed] \<and> feeds c2 = feeds c1 \<and>
       decodeRaw (Decode sample_Node) raw1 = Inr (4, 0, MsgOk) \<and>
       decodeRaw (Decode sample_Node) raw2 = Inr (6, 0, MsgOk)"
    by simp
  then obtain c1 c2 raw1 raw2 where
    h: "handleSub sample_Node sample_Conn 4 [9] = Returned None c1"
       "handleSub sample_Node c1 6 [9] = Returned None c2"
       "sendq c2 = [raw1, raw2]"
       "feeds c1 = [[9] \<mapsto> new_connFeed]" "feeds c2 = feeds c1"
       "decodeRaw (Decode sample_Node) raw1 = Inr (4, 0, MsgOk)"
       "decodeRaw (Decode sample_Node) raw2 = Inr (6, 0, MsgOk)"
    by blast
  from h(4,5) have "feeds c2 = [[9] \<mapsto> new_connFeed]"
    by simp
  with h(1,2,3,6,7)
  have inbound: "\<exists>c1 c2 raw1 raw2.
       handleSub sample_Node sample_Conn 4 [9] = Returned None c1 \<and>
       handleSub sample_Node c1 6 [9] = Returned None c2 \<and>
       sendq c2 = [raw1, raw2] \<and> feeds c2 = [[9] \<mapsto> new_connFeed] \<and>
       decodeRaw (Decode sample_Node) raw1 = Inr (4, 0, MsgOk) \<and>
       decodeRaw (Decode sample_Node) raw2 = Inr (6, 0, MsgOk)"
    by blast
  from first second known inbound show ?thesis
    by simp
qed


section \<open>Waiting for a response\<close>

lemma rendezvous_two_sends: "rendezvous sendRequest_rq_op (receiving_rq_op r) = None"
  by (simp add: sendRequest_rq_op_def receiving_rq_op_def)

lemma sendRequest_select_resp:
  "sendRequest_select n c resp fired =
     (if 0 < ResponseTimeout n \<and> fired then [(None, Some ErrTimeout)] else [])
     @ (if closeq_closed c then [(None, Some ErrClosed)] else [])"
  by (cases resp) (simp_all add: sendRequest_select_def rendezvous_two_sends)

lemma sendRequest_select_set:
  "x \<in> set (sendRequest_select n c resp fired) \<Longrightarrow>
     fst x = None \<and> (snd x = Some ErrTimeout \<or> snd x = Some ErrClosed)"
  by (auto simp: sendRequest_select_resp split: if_splits)

lemma sendRequest_Returned:
  assumes "sendRequest n c m resp fired pick = Returned (reply, err) c'"
  shows "reply = None \<and> (err = Some ErrTimeout \<or> err = Some ErrClosed)"
proof -
  obtain sq c1 where ns: "nextSeq c = (sq, c1)"
    by (cases "nextSeq c")
  from assms ns obtain u c2 where ar: "addRequest c1 sq sq = Returned u c2"
    by (cases "addRequest c1 sq sq") (simp_all add: sendRequest_def)
  let ?c3 = "sendMsg n c2 sq 0 m"
  let ?ready = "sendRequest_select n ?c3 resp fired"
  from assms ns ar have ne: "?ready \<noteq> []"
    by (auto simp: sendRequest_def Let_def split: if_splits)
  with assms ns ar have "(reply, err) = ?ready ! (pick mod length ?ready)"
    by (cases "delRequest ?c3 sq") (simp_all add: sendRequest_def Let_def)
  moreover from ne have "?ready ! (pick mod length ?ready) \<in> set ?ready"
    by simp
  ultimately have "(reply, err) \<in> set ?ready"
    by simp
  from sendRequest_select_set [OF this] show ?thesis
    by simp
qed

lemma sendRequest_waits:
  assumes "\<not> mx c" "\<not> closeq_closed c" "\<not> fired"
  shows "\<exists>b. sendRequest n c m resp fired pick = Blocked b"
  using assms
  by (simp add: sendRequest_def nextSeq_def addRequest_def Lock_def Unlock_def Let_def
        sendRequest_select_resp sendMsg_def encodeMsg_eq sendRaw_def)

lemma Uint32_Some: "4 \<le> length b \<Longrightarrow> \<exists>v. Uint32 b = Some v"
  by (simp add: Uint32_def)

lemma receiving_response:
  assumes "\<not> mx c" "9 \<le> length raw" "Uint32 raw = Some sq" "Uint32 (drop 4 raw) = Some rseq"
    "Decode n (drop 4 (drop 4 raw)) = Inr r" "reqs c rseq = Some rq"
  shows "receiving n c (Frame raw # es) = ([ToRequest rq r], Blocked c)"
  using assms
  by (simp add: isResponse_def Lock_free Unlock_locked receiving_rq_op_def sendRequest_rq_op_def)

text \<open>
  C1 (outcome of a request). The claim is that \<^verbatim>\<open>sendRequest\<close> returns the message of the
  frame that answers it. In the source both ends of the request channel send: the
  receive loop with \<^verbatim>\<open>rq <- m\<close>, and \<^verbatim>\<open>sendRequest\<close> with \<^verbatim>\<open>rq <- reply\<close> where a receive was
  meant. Two sends do not meet, so a response does not make any case of the \<^verbatim>\<open>select\<close>
  ready; with the timer not expired and the connection open the call stays blocked,
  response or not; whenever it returns, the reply is \<^verbatim>\<open>nil\<close> and the error is the
  timeout or the closed connection; and the receive loop, having found the pending
  request, stays blocked on its send.
\<close>

theorem sendRequest_never_returns_reply:
  "rendezvous sendRequest_rq_op (receiving_rq_op r) = None \<and>
   sendRequest_select n c (Some r) fired = sendRequest_select n c None fired \<and>
   (\<not> mx c \<and> \<not> closeq_closed c \<and> \<not> fired \<longrightarrow>
      (\<exists>b. sendRequest n c m (Some r) fired pick = Blocked b)) \<and>
   (\<forall>reply err c'. sendRequest n c m resp fired pick = Returned (reply, err) c' \<longrightarrow>
      reply = None \<and> (err = Some ErrTimeout \<or> err = Some ErrClosed)) \<and>
   (\<not> mx c \<and> 9 \<le> length raw \<and> Uint32 raw = Some sq \<and> Uint32 (drop 4 raw) = Some rseq \<and>
    Decode n (drop 4 (drop 4 raw)) = Inr r \<and> reqs c rseq = Some rq \<longrightarrow>
      receiving n c (Frame raw # es) = ([ToRequest rq r], Blocked c))"
  using rendezvous_two_sends [of r] sendRequest_select_resp [of n c]
    sendRequest_waits [of c fired n m "Some r" pick]
    sendRequest_Returned [of n c m resp fired pick]
    receiving_response [of c raw sq rseq n r rq es]
  by (intro conjI impI allI) simp_all

lemma Uint32_answer: "Uint32 [5, 0, 0, 0, 1, 0, 0, 0, 1] = Some 5"
  "Uint32 (drop 4 [5, 0, 0, 0, 1, 0, 0, 0, 1]) = Some 1"
  by (simp_all add: Uint32_def)

text \<open>
  The theorem at the sample connection: a request for the list of feeds stays blocked
  while the timer has not expired, although the answer has arrived; it returns the
  timeout once the timer has expired; and the receive loop, given the frame that
  answers request 1, stays blocked on the channel of that request.
\<close>

theorem sendRequest_never_returns_reply_witness:
  "(\<exists>b. sendRequest sample_Node sample_Conn MsgRqList (Some (MsgList [])) False 0 = Blocked b) \<and>
   (\<exists>c'. sendRequest sample_Node sample_Conn MsgRqList (Some (MsgList [])) True 0
            = Returned (None, Some ErrTimeout) c') \<and>
   receiving sample_Node (sample_Conn\<lparr>reqs := [1 \<mapsto> 1]\<rparr>) [Frame [5, 0, 0, 0, 1, 0, 0, 0, 1]]
     = ([ToRequest 1 MsgOk], Blocked (sample_Conn\<lparr>reqs := [1 \<mapsto> 1]\<rparr>))"
proof -
  let ?c = "sample_Conn\<lparr>reqs := [1 \<mapsto> 1]\<rparr>"
  note main = sendRequest_never_returns_reply
  have open0: "\<not> mx sample_Conn \<and> \<not> closeq_closed sample_Conn \<and> \<not> False"
    by (simp add: sample_Conn_def newConnection_def)
  have pre: "\<not> mx ?c \<and> 9 \<le> length [5, 0, 0, 0, 1, 0, 0, 0, 1 :: byte] \<and>
      Uint32 [5, 0, 0, 0, 1, 0, 0, 0, 1] = Some 5 \<and>
      Uint32 (drop 4 [5, 0, 0, 0, 1, 0, 0, 0, 1]) = Some 1 \<and>
      Decode sample_Node (drop 4 (drop 4 [5, 0, 0, 0, 1, 0, 0, 0, 1])) = Inr MsgOk \<and>
      reqs ?c 1 = Some 1"
    using Uint32_answer by (simp add: sample_Conn_def newConnection_def sample_Node_def)
  have timeout: "\<exists>c'. sendRequest sample_Node sample_Conn MsgRqList (Some (MsgList [])) True 0
            = Returned (None, Some ErrTimeout) c'"
    by (simp add: sendRequest_def nextSeq_def addRequest_def delRequest_def Lock_def Unlock_def
          Let_def sendRequest_select_resp sendMsg_def encodeMsg_eq sendRaw_def
          sample_Conn_def newConnection_def sample_Node_def)
  from main [of "MsgList []" sample_Node sample_Conn False MsgRqList 0 None "[]" 0 0 0 "[]"] open0
  have blocked: "\<exists>b. sendRequest sample_Node sample_Conn MsgRqList (Some (MsgList [])) False 0 = Blocked b"
    by simp
  from main [of MsgOk sample_Node ?c False MsgRqList 0 None "[5, 0, 0, 0, 1, 0, 0, 0, 1]" 5 1 1 "[]"] pre
  have loop: "receiving sample_Node ?c [Frame [5, 0, 0, 0, 1, 0, 0, 0, 1]] = ([ToRequest 1 MsgOk], Blocked ?c)"
    by simp
  from blocked timeout loop show ?thesis
    by simp
qed

section \<open>Unsubscribing\<close>

text \<open>
  C4 (unsubscribe). Without an entry for the feed \<^verbatim>\<open>Unsubscribe\<close> changes nothing, as
  claimed. With an entry, the claim is that the entry is gone afterwards. The source
  calls \<^verbatim>\<open>delete(c.feeds, cf)\<close>, with the \<^verbatim>\<open>connFeed\<close> where the feed was meant: after the
  call the map still has the entry for the feed (with \<^verbatim>\<open>unholdSent\<close> applied to it), one
  sequence number is taken and one \<^verbatim>\<open>Unsub\<close> frame with response sequence 0 is sent.
\<close>

theorem Unsubscribe_leaves_feed_entry:
  "(\<not> mx c \<and> feeds c feed = None \<longrightarrow> Unsubscribe n c feed = Returned () c) \<and>
   (\<not> mx c \<and> \<not> closeq_closed c \<and> feeds c feed = Some cf \<and> \<not> cf_mx cf \<longrightarrow>
      (\<exists>raw. encodeMsg (Encode n) (seq c + 1) 0 (MsgUnsub feed) = Some raw \<and>
         Unsubscribe n c feed =
           Returned ()
             (c\<lparr>feeds := (feeds c)(feed \<mapsto> (unholdSent n (cf\<lparr>cf_mx := True\<rparr>))\<lparr>cf_mx := False\<rparr>),
                seq := seq c + 1, sendq := sendq c @ [raw]\<rparr>)))"
proof (intro conjI impI)
  assume "\<not> mx c \<and> feeds c feed = None"
  then show "Unsubscribe n c feed = Returned () c"
    by (simp add: Unsubscribe_def Lock_free Unlock_locked)
next
  assume a: "\<not> mx c \<and> \<not> closeq_closed c \<and> feeds c feed = Some cf \<and> \<not> cf_mx cf"
  then have "Unsubscribe n c feed =
           Returned ()
             (c\<lparr>feeds := (feeds c)(feed \<mapsto> (unholdSent n (cf\<lparr>cf_mx := True\<rparr>))\<lparr>cf_mx := False\<rparr>),
                seq := seq c + 1,
                sendq := sendq c @ [le_bytes 0 @ [0, 0, 0, 0] @ Encode n (MsgUnsub feed)]\<rparr>)"
    by (simp add: Unsubscribe_def Lock_def Unlock_def delete_feeds_def nextSeq_def sendMsg_def
          encodeMsg_eq sendRaw_def Let_def)
  then show "\<exists>raw. encodeMsg (Encode n) (seq c + 1) 0 (MsgUnsub feed) = Some raw \<and>
         Unsubscribe n c feed =
           Returned ()
             (c\<lparr>feeds := (feeds c)(feed \<mapsto> (unholdSent n (cf\<lparr>cf_mx := True\<rparr>))\<lparr>cf_mx := False\<rparr>),
                seq := seq c + 1, sendq := sendq c @ [raw]\<rparr>)"
    by (simp add: encodeMsg_eq)
qed

text \<open>
  The theorem at the sample connection: without feed 9 nothing happens; with feed 9 the
  entry is still there after \<^verbatim>\<open>Unsubscribe\<close>, and one frame has been sent.
\<close>

theorem Unsubscribe_leaves_feed_entry_witness:
  "Unsubscribe sample_Node sample_Conn [9] = Returned () sample_Conn \<and>
   (\<exists>c'. Unsubscribe sample_Node (sample_Conn\<lparr>feeds := [[9] \<mapsto> new_connFeed]\<rparr>) [9] = Returned () c' \<and>
         feeds c' [9] = Some new_connFeed \<and> seq c' = 1 \<and> sendq c' = [[0, 0, 0, 0, 0, 0, 0, 0, 1]])"
proof -
  let ?c = "sample_Conn\<lparr>feeds := [[9] \<mapsto> new_connFeed]\<rparr>"
  note main = Unsubscribe_leaves_feed_entry
  have pre0: "\<not> mx sample_Conn \<and> feeds sample_Conn [9] = None"
    by (simp add: sample_Conn_def newConnection_def)
  have pre1: "\<not> mx ?c \<and> \<not> closeq_closed ?c \<and> feeds ?c [9] = Some new_connFeed \<and> \<not> cf_mx new_connFeed"
    by (simp add: sample_Conn_def newConnection_def new_connFeed_def)
  have vals: "seq sample_Conn = 0" "sendq sample_Conn = []"
    "(unholdSent sample_Node (new_connFeed\<lparr>cf_mx := True\<rparr>))\<lparr>cf_mx := False\<rparr> = new_connFeed"
    "Encode sample_Node (MsgUnsub [9]) = [1]"
    by (simp_all add: sample_Conn_def newConnection_def sample_Node_def new_connFeed_def)
  from main [of sample_Conn "[9]" sample_Node new_connFeed] pre0
  have a: "Unsubscribe sample_Node sample_Conn [9] = Returned () sample_Conn"
    by simp
  from main [of ?c "[9]" sample_Node new_connFeed] pre1
  have b: "\<exists>c'. Unsubscribe sample_Node ?c [9] = Returned () c' \<and>
         feeds c' [9] = Some new_connFeed \<and> seq c' = 1 \<and> sendq c' = [[0, 0, 0, 0, 0, 0, 0, 0, 1]]"
    by (simp add: encodeMsg_eq vals le_bytes_small)
  from a b show ?thesis
    by simp
qed

section \<open>Subscribing to the blank key\<close>

text \<open>
  C5 (blank key). The claim is that \<^verbatim>\<open>Subscribe\<close> rejects the blank key with an error of
  its own. \<^verbatim>\<open>Subscribe\<close> does not test the key (\<^verbatim>\<open>handleSub\<close> does, and answers with the
  error). When \<^verbatim>\<open>Share\<close> accepts the blank key, \<^verbatim>\<open>Subscribe\<close> goes on to \<^verbatim>\<open>sendRequest\<close>,
  which takes a sequence number and then waits in \<^verbatim>\<open>addRequest\<close> for \<^verbatim>\<open>c.mx\<close>, the mutex
  that \<^verbatim>\<open>Subscribe\<close> itself holds: the call does not return.
\<close>

theorem Subscribe_blank_not_rejected:
  "(\<not> mx c \<and> feeds c blank_PubKey = None \<and> Share n blank_PubKey = None \<longrightarrow>
      Subscribe n c blank_PubKey resp fired pick =
        Blocked (c\<lparr>mx := True, nlog := nlog c @ [Shared blank_PubKey], seq := seq c + 1\<rparr>)) \<and>
   handleSub n c sq blank_PubKey = Returned None (sendErr n c sq (ErrText ''blank public key''))"
  by (simp add: Subscribe_def Lock_def sendRequest_def nextSeq_def addRequest_def handleSub_def)

text \<open>
  The theorem at the sample connection, whose node accepts every key: the call stays
  blocked with \<^verbatim>\<open>c.mx\<close> held and one sequence number taken.
\<close>

theorem Subscribe_blank_not_rejected_witness:
  "Subscribe sample_Node sample_Conn blank_PubKey None False 0 =
     Blocked (sample_Conn\<lparr>mx := True, nlog := [AddPendingConn, Shared blank_PubKey], seq := 1\<rparr>)"
proof -
  have pre: "\<not> mx sample_Conn \<and> feeds sample_Conn blank_PubKey = None \<and>
      Share sample_Node blank_PubKey = None"
    by (simp add: sample_Conn_def newConnection_def sample_Node_def)
  have vals: "seq sample_Conn = 0" "nlog sample_Conn = [AddPendingConn]"
    by (simp_all add: sample_Conn_def newConnection_def)
  from Subscribe_blank_not_rejected [of sample_Conn sample_Node None False 0 0] pre
  show ?thesis
    by (simp add: vals)
qed

section \<open>Frames that do not decode\<close>

text \<open>
  C8 (malformed frame). For a frame shorter than nine bytes and for a frame whose
  payload does not decode, the receive loop calls no handler and no request channel,
  prints the error and returns, as claimed. The claim also says that the connection is
  terminated. \<^verbatim>\<open>fatality\<close> leaves that to \<^verbatim>\<open>closeWithError\<close>, whose body is empty: the
  embedded connection is not closed (\<^verbatim>\<open>Close\<close> would close it) and the close signal is
  not given.
\<close>

theorem receiving_bad_frame_leaves_connection_open:
  "(length raw < 9 \<longrightarrow>
      receiving n c (Frame raw # es) =
        ([], Returned ()
               (c\<lparr>nlog := nlog c @ [Print ''[ERR] invalid messege received: samll size'']\<rparr>))) \<and>
   (9 \<le> length raw \<and> Decode n (drop 4 (drop 4 raw)) = Inl err \<longrightarrow>
      receiving n c (Frame raw # es) =
        ([], Returned ()
               (c\<lparr>nlog := nlog c @
                    [Print (''[ERR] can't decode received messege: '' @ Error n err)]\<rparr>))) \<and>
   closeWithError c e = c \<and>
   conn_closed (fatality c e) = conn_closed c \<and>
   closeq_closed (fatality c e) = closeq_closed c \<and>
   conn_closed (Close c)"
proof -
  have long: "receiving n c (Frame raw # es) =
        ([], Returned ()
               (c\<lparr>nlog := nlog c @
                    [Print (''[ERR] can't decode received messege: '' @ Error n err)]\<rparr>))"
    if "9 \<le> length raw" "Decode n (drop 4 (drop 4 raw)) = Inl err"
  proof -
    from that have "4 \<le> length raw" "4 \<le> length (drop 4 raw)"
      by simp_all
    then obtain sq rseq where "Uint32 raw = Some sq" "Uint32 (drop 4 raw) = Some rseq"
      using Uint32_Some by blast
    with that show ?thesis
      by (simp add: fatality_def closeWithError_def)
  qed
  show ?thesis
    using long by (simp add: fatality_def closeWithError_def Close_def)
qed

text \<open>
  The theorem at a frame of five bytes and at a frame of nine bytes that a codec
  refuses: in both cases the loop returns with one more line in the log and the
  connection open.
\<close>

theorem receiving_bad_frame_leaves_connection_open_witness:
  "receiving sample_Node sample_Conn [Frame [1, 2, 3, 4, 5], InClosed] =
     ([], Returned ()
            (sample_Conn\<lparr>nlog := [AddPendingConn,
                                   Print ''[ERR] invalid messege received: samll size'']\<rparr>)) \<and>
   receiving (sample_Node\<lparr>Decode := \<lambda>raw. Inl (ErrText ''unknown type'')\<rparr>) sample_Conn
       [Frame [5, 0, 0, 0, 0, 0, 0, 0, 1], InClosed] =
     ([], Returned ()
            (sample_Conn\<lparr>nlog := [AddPendingConn,
                                   Print ''[ERR] can't decode received messege: unknown type'']\<rparr>)) \<and>
   \<not> conn_closed (fatality sample_Conn ''invalid messege received: samll size'') \<and>
   \<not> closeq_closed (fatality sample_Conn ''invalid messege received: samll size'')"
proof -
  let ?n = "sample_Node\<lparr>Decode := \<lambda>raw. Inl (ErrText ''unknown type'')\<rparr>"
  note main = receiving_bad_frame_leaves_connection_open
  have vals: "nlog sample_Conn = [AddPendingConn]" "\<not> conn_closed sample_Conn"
    "\<not> closeq_closed sample_Conn"
    by (simp_all add: sample_Conn_def newConnection_def)
  have pre: "9 \<le> length [5, 0, 0, 0, 0, 0, 0, 0, 1 :: byte] \<and>
      Decode ?n (drop 4 (drop 4 [5, 0, 0, 0, 0, 0, 0, 0, 1])) = Inl (ErrText ''unknown type'')"
    by simp
  from main [of "[1, 2, 3, 4, 5]" sample_Node sample_Conn "[InClosed]" "ErrText ''unknown type''"
              "''invalid messege received: samll size''"]
  have a: "receiving sample_Node sample_Conn [Frame [1, 2, 3, 4, 5], InClosed] =
     ([], Returned ()
            (sample_Conn\<lparr>nlog := [AddPendingConn,
                                   Print ''[ERR] invalid messege received: samll size'']\<rparr>))"
    and c: "\<not> conn_closed (fatality sample_Conn ''invalid messege received: samll size'')"
      "\<not> closeq_closed (fatality sample_Conn ''invalid messege received: samll size'')"
    by (simp_all add: vals)
  from main [of "[5, 0, 0, 0, 0, 0, 0, 0, 1]" ?n sample_Conn "[InClosed]" "ErrText ''unknown type''"
              "''x''"] pre
  have b: "receiving ?n sample_Conn [Frame [5, 0, 0, 0, 0, 0, 0, 0, 1], InClosed] =
     ([], Returned ()
            (sample_Conn\<lparr>nlog := [AddPendingConn,
                                   Print ''[ERR] can't decode received messege: unknown type'']\<rparr>))"
    by (simp add: vals Error_def)
  from a b c show ?thesis
    by simp
qed


end
